theory Spec2Isabelle
  imports Main "HOL-Library.Sublist" "HOL-Library.Word"
begin

section \<open>Go values: pointers, errors, panics\<close>

text \<open>
  A Go pointer that may be nil is an option (\<open>None\<close> is nil). An \<open>error\<close> value is its
  message. A computation either returns a value, returns an error, or panics (a nil
  dereference, an index out of range).
\<close>

type_synonym 'a ptr = "'a option"

type_synonym go_error = string

datatype 'a go = Ok 'a | Fail go_error | Panic

section \<open>The strings package and the separator\<close>

text \<open>
  \<open>strings.Split(s, sep)\<close> cuts \<open>s\<close> at every occurrence of \<open>sep\<close>, found from the left and
  not overlapping; the result has one element more than there are occurrences. With an
  empty separator Go cuts after every character; the operations below never pass one.
\<close>

function genSplit :: "string \<Rightarrow> string \<Rightarrow> string \<Rightarrow> string list" where
  "genSplit sep cur [] = [cur]"
| "genSplit sep cur (c # cs) =
     (if sep \<noteq> [] \<and> prefix sep (c # cs)
      then cur # genSplit sep [] (drop (length sep) (c # cs))
      else genSplit sep (cur @ [c]) cs)"
  by pat_completeness auto
termination
  by (relation "measure (\<lambda>(sep, cur, s). length s)") auto

definition strings_Split :: "string \<Rightarrow> string \<Rightarrow> string list" where
  "strings_Split s sep = (if sep = [] then map (\<lambda>c. [c]) s else genSplit sep [] s)"

fun strings_Join :: "string list \<Rightarrow> string \<Rightarrow> string" where
  "strings_Join [] sep = []"
| "strings_Join [x] sep = x"
| "strings_Join (x # y # ys) sep = x @ sep @ strings_Join (y # ys) sep"


text \<open>
  The constant \<open>FILED_SP\<close> is declared outside the files at hand; the import
  instructions in the resources' own documentation
  (\<open>${instanceId}#${cluster}#${userName}\<close>, \<open>mssql-i9ma6oy7#tf_example_db\<close>) fix it.
\<close>

definition FILED_SP :: string where
  "FILED_SP = ''#''"

text \<open>\<open>strconv.Atoi\<close> with its error discarded (\<open>v, _ = strconv.Atoi(s)\<close>): a syntax
  error leaves 0, a value out of the 64-bit range leaves the nearest bound.\<close>

definition is_digit :: "char \<Rightarrow> bool" where
  "is_digit c = ((48::nat) \<le> of_char c \<and> of_char c \<le> (57::nat))"

definition decimal :: "string \<Rightarrow> int" where
  "decimal ds = foldl (\<lambda>acc c. 10 * acc + (int (of_char c) - 48)) 0 ds"

definition Atoi_value :: "string \<Rightarrow> int" where
  "Atoi_value s =
     (let neg = (s \<noteq> [] \<and> hd s = CHR ''-'');
          ds = (if s \<noteq> [] \<and> (hd s = CHR ''-'' \<or> hd s = CHR ''+'') then tl s else s)
      in if ds = [] \<or> \<not> list_all is_digit ds then 0
         else if neg then (if decimal ds > 2 ^ 63 then - (2 ^ 63) else - decimal ds)
         else (if decimal ds \<ge> 2 ^ 63 then 2 ^ 63 - 1 else decimal ds))"

section \<open>The host engine's resource data\<close>

text \<open>
  \<open>schema.ResourceData\<close> belongs to the host engine's SDK. What the operations use of it:
  the identifier (\<open>d.Id()\<close>, \<open>d.SetId\<close>); the attribute values they read (\<open>d.Get\<close>,
  \<open>d.GetOk\<close>, \<open>d.GetOkExists\<close>), which are the planned values overlaid with what \<open>d.Set\<close>
  has written; and \<open>d.HasChange\<close>, which compares the stored state with the plan, an
  attribute that is not set counting as its type's zero value. The order in which a set's
  \<open>List()\<close> yields its members is the order of the list in \<open>VSet\<close>. A float is only
  passed through, as its 64 bits.
\<close>

datatype float64 = Float64bits "64 word"

datatype tf_value =
    VString string
  | VBool bool
  | VInt int
  | VFloat float64
  | VSet "string list"
  | VList "tf_value list"
  | VMap "(string \<times> tf_value) list"

record ResourceData =
  rd_Id :: string
  rd_state :: "string \<rightharpoonup> tf_value"
  rd_plan :: "string \<rightharpoonup> tf_value"
  rd_written :: "string \<rightharpoonup> tf_value"

definition SetId :: "ResourceData \<Rightarrow> string \<Rightarrow> ResourceData" where
  "SetId d s = d\<lparr>rd_Id := s\<rparr>"

definition Set_attr :: "ResourceData \<Rightarrow> string \<Rightarrow> tf_value \<Rightarrow> ResourceData" where
  "Set_attr d k v = d\<lparr>rd_written := (rd_written d)(k \<mapsto> v)\<rparr>"

text \<open>Writing from a pointer field of a response: the code guards each with a nil check.\<close>

definition Set_if_present :: "ResourceData \<Rightarrow> string \<Rightarrow> tf_value ptr \<Rightarrow> ResourceData" where
  "Set_if_present d k p = (case p of None \<Rightarrow> d | Some v \<Rightarrow> Set_attr d k v)"

definition Get :: "ResourceData \<Rightarrow> string \<Rightarrow> tf_value option" where
  "Get d k = (case rd_written d k of Some v \<Rightarrow> Some v | None \<Rightarrow> rd_plan d k)"

fun is_zero :: "tf_value \<Rightarrow> bool" where
  "is_zero (VString s) = (s = [])"
| "is_zero (VBool b) = (\<not> b)"
| "is_zero (VInt i) = (i = 0)"
| "is_zero (VFloat (Float64bits w)) = (w = 0 \<or> w = 2 ^ 63)"
| "is_zero (VSet xs) = (xs = [])"
| "is_zero (VList xs) = (xs = [])"
| "is_zero (VMap m) = (m = [])"

definition GetOk :: "ResourceData \<Rightarrow> string \<Rightarrow> tf_value option" where
  "GetOk d k = (case Get d k of Some v \<Rightarrow> (if is_zero v then None else Some v) | None \<Rightarrow> None)"

definition GetOkExists :: "ResourceData \<Rightarrow> string \<Rightarrow> tf_value option" where
  "GetOkExists d k = Get d k"

definition nonzero :: "tf_value option \<Rightarrow> tf_value option" where
  "nonzero p = (case p of Some v \<Rightarrow> (if is_zero v then None else Some v) | None \<Rightarrow> None)"

definition HasChange :: "ResourceData \<Rightarrow> string \<Rightarrow> bool" where
  "HasChange d k = (nonzero (rd_state d k) \<noteq> nonzero (rd_plan d k))"

text \<open>The type assertions \<open>v.(string)\<close>, \<open>v.(bool)\<close>, \<open>v.(int)\<close>, \<open>v.(*schema.Set).List()\<close>
  succeed by the schema's contract; an attribute that is not set reads as the zero value.\<close>

fun as_string :: "tf_value option \<Rightarrow> string" where
  "as_string (Some (VString s)) = s"
| "as_string _ = []"

fun as_bool :: "tf_value option \<Rightarrow> bool" where
  "as_bool (Some (VBool b)) = b"
| "as_bool _ = False"

fun as_int :: "tf_value option \<Rightarrow> int" where
  "as_int (Some (VInt i)) = i"
| "as_int _ = 0"

fun as_set_List :: "tf_value option \<Rightarrow> string list" where
  "as_set_List (Some (VSet xs)) = xs"
| "as_set_List _ = []"

fun as_list :: "tf_value option \<Rightarrow> tf_value list" where
  "as_list (Some (VList xs)) = xs"
| "as_list _ = []"

fun as_map :: "tf_value \<Rightarrow> (string \<times> tf_value) list" where
  "as_map (VMap m) = m"
| "as_map _ = []"

section \<open>Remote calls and the retry helper\<close>

text \<open>
  \<open>resource.Retry(timeout, f)\<close> runs \<open>f\<close> until it returns nil or an error that is not
  retryable, or the time is used up; then it returns the last error. Time is counted in
  attempts: \<open>Retry t f\<close> makes the first attempt and at most \<open>t\<close> more. Each attempt sees
  the calls made so far and adds its own.
\<close>

datatype 'a attempt = Done 'a | RetryableError go_error | NonRetryableError go_error | Panicked

fun Retry :: "nat \<Rightarrow> ('c list \<Rightarrow> 'a attempt \<times> 'c list) \<Rightarrow> 'c list \<Rightarrow> 'a go \<times> 'c list" where
  "Retry t f lg =
     (case f lg of
        (Done v, lg') \<Rightarrow> (Ok v, lg')
      | (NonRetryableError e, lg') \<Rightarrow> (Fail e, lg')
      | (Panicked, lg') \<Rightarrow> (Panic, lg')
      | (RetryableError e, lg') \<Rightarrow>
          (case t of 0 \<Rightarrow> (Fail e, lg') | Suc t' \<Rightarrow> Retry t' f lg'))"

section \<open>The shared client\<close>

text \<open>
  The SDK client, the service layer (\<open>CdwchService\<close>, \<open>MonitorService\<close>, \<open>SqlserverService\<close>,
  \<open>VpcService\<close>, \<open>ScfService\<close>) and the helpers \<open>retryError\<close>, \<open>helper.DataResourceIdsHash\<close>
  and \<open>writeToFile\<close> are outside the files at hand. Each is a field of the client: a remote
  interaction answers from the calls made so far and its request, with an error or a
  result; a result that is a pointer may be nil. Every interaction is recorded in the log of
  calls, so that "no remote call" is "the log is as it was".
\<close>

record TablePrivilegeInfo =
  tpi_TableName :: "string ptr"
  tpi_TablePrivileges :: "string list"

record DatabasePrivilegeInfo =
  dpi_DatabaseName :: "string ptr"
  dpi_DatabasePrivileges :: "string list"
  dpi_TablePrivilegeList :: "TablePrivilegeInfo list"

record ModifyUserNewPrivilegeRequest =
  mup_InstanceId :: "string ptr"
  mup_Cluster :: "string ptr"
  mup_UserName :: "string ptr"
  mup_AllDatabase :: "bool ptr"
  mup_GlobalPrivileges :: "string list"
  mup_DatabasePrivilegeList :: "DatabasePrivilegeInfo list"

text \<open>What the lookups answer. A slice the code tests against nil is an optional list;
  an element the code reaches through a pointer is an optional record.\<close>

record TablePrivilege =
  tp_TableName :: "string ptr"
  tp_TablePrivileges :: "string list option"

record DatabasePrivilege =
  dp_DatabaseName :: "string ptr"
  dp_DatabasePrivileges :: "string list option"
  dp_TablePrivilegeList :: "TablePrivilege ptr list option"

record AccountPermission =
  ap_InstanceId :: "string ptr"
  ap_Cluster :: "string ptr"
  ap_UserName :: "string ptr"
  ap_AllDatabase :: "bool ptr"
  ap_GlobalPrivileges :: "string list option"
  ap_DatabasePrivilegeList :: "DatabasePrivilege ptr list option"

record PrometheusScrapeJobRequest =
  sj_JobId :: "string ptr"
  sj_InstanceId :: "string ptr"
  sj_AgentId :: "string ptr"
  sj_Config :: "string ptr"

record PrometheusScrapeJobs =
  psj_AgentId :: "string ptr"
  psj_Config :: "string ptr"

record ModifyDatabaseCTRequest =
  mct_ModifyType :: "string ptr"
  mct_ChangeRetentionDay :: "int ptr"
  mct_InstanceId :: "string ptr"
  mct_DBNames :: "string list"

record DbNormalDetail =
  dnd_Name :: "string ptr"
  dnd_IsDbChainingOn :: "string ptr"
  dnd_RetentionPeriod :: "string ptr"

record FlowLog =
  fl_Enable :: "bool ptr"

record RequestStatus =
  rs_FunctionName :: "string ptr"
  rs_RetMsg :: "string ptr"
  rs_RequestId :: "string ptr"
  rs_StartTime :: "string ptr"
  rs_RetCode :: "int ptr"
  rs_Duration :: "float64 ptr"
  rs_MemUsage :: "float64 ptr"
  rs_RetryNum :: "int ptr"

datatype api_call =
    Call_ModifyUserNewPrivilege ModifyUserNewPrivilegeRequest
  | Call_DescribeCdwchAccountPermission string string string
  | Call_DescribeCkSqlApis string string string string
  | Call_CreatePrometheusScrapeJob PrometheusScrapeJobRequest
  | Call_UpdatePrometheusScrapeJob PrometheusScrapeJobRequest
  | Call_DescribeMonitorTmpScrapeJob string
  | Call_DeleteMonitorTmpScrapeJobById string
  | Call_ModifyDatabaseCT ModifyDatabaseCTRequest
  | Call_DescribeFlowStatus "64 word"
  | Call_DescribeSqlserverConfigDatabaseCTById string
  | Call_EnableFlowLogs "string list"
  | Call_DisableFlowLogs "string list"
  | Call_DescribeFlowLogs string
  | Call_DescribeScfRequestStatusByFilter "(string \<times> string) list"

type_synonym calls = "api_call list"

text \<open>
  Where the code follows a chain of pointers in the result without a check
  (\<open>*response.Response.JobId\<close>, \<open>*result.Response.FlowId\<close>, \<open>*result.Response.Status\<close>), the
  answer is one optional value: \<open>None\<close> stands for a nil anywhere on the chain. For
  \<open>ModifyDatabaseCT\<close> the code tests the result itself against nil first, so its answer
  has that level too. The package constants \<open>writeRetryTimeout\<close>, \<open>readRetryTimeout\<close>,
  \<open>SQLSERVER_TASK_SUCCESS\<close>, \<open>SQLSERVER_TASK_RUNNING\<close>, \<open>SQLSERVER_TASK_FAIL\<close> and
  \<open>DESCRIBE_CK_SQL_APIS_REVOKE_CLUSTER_USER\<close> are declared outside the files at hand as
  well, and are taken as given with the client.
\<close>

record TencentCloudClient =
  writeRetryTimeout :: nat
  readRetryTimeout :: nat
  retryable :: "go_error \<Rightarrow> bool"
  DESCRIBE_CK_SQL_APIS_REVOKE_CLUSTER_USER :: string
  SQLSERVER_TASK_SUCCESS :: "64 word"
  SQLSERVER_TASK_RUNNING :: "64 word"
  SQLSERVER_TASK_FAIL :: "64 word"
  ModifyUserNewPrivilege :: "calls \<Rightarrow> ModifyUserNewPrivilegeRequest \<Rightarrow> go_error + unit"
  DescribeCdwchAccountPermission ::
    "calls \<Rightarrow> string \<Rightarrow> string \<Rightarrow> string \<Rightarrow> go_error + AccountPermission ptr"
  DescribeCkSqlApis :: "calls \<Rightarrow> string \<Rightarrow> string \<Rightarrow> string \<Rightarrow> string \<Rightarrow> go_error option"
  CreatePrometheusScrapeJob :: "calls \<Rightarrow> PrometheusScrapeJobRequest \<Rightarrow> go_error + string ptr"
  UpdatePrometheusScrapeJob :: "calls \<Rightarrow> PrometheusScrapeJobRequest \<Rightarrow> go_error + unit"
  DescribeMonitorTmpScrapeJob :: "calls \<Rightarrow> string \<Rightarrow> go_error + PrometheusScrapeJobs ptr"
  DeleteMonitorTmpScrapeJobById :: "calls \<Rightarrow> string \<Rightarrow> go_error option"
  ModifyDatabaseCT :: "calls \<Rightarrow> ModifyDatabaseCTRequest \<Rightarrow> go_error + (64 word) ptr ptr"
  DescribeFlowStatus :: "calls \<Rightarrow> 64 word \<Rightarrow> go_error + (64 word) ptr"
  DescribeSqlserverConfigDatabaseCTById ::
    "calls \<Rightarrow> string \<Rightarrow> go_error + DbNormalDetail ptr list option"
  EnableFlowLogs :: "calls \<Rightarrow> string list \<Rightarrow> go_error + unit"
  DisableFlowLogs :: "calls \<Rightarrow> string list \<Rightarrow> go_error + unit"
  DescribeFlowLogs :: "calls \<Rightarrow> string \<Rightarrow> go_error + FlowLog ptr list"
  DescribeScfRequestStatusByFilter ::
    "calls \<Rightarrow> (string \<times> string) list \<Rightarrow> go_error + RequestStatus ptr list option"
  DataResourceIdsHash :: "string list \<Rightarrow> string"
  writeToFile :: "string \<Rightarrow> tf_value list \<Rightarrow> go_error option"

definition retryError :: "TencentCloudClient \<Rightarrow> go_error \<Rightarrow> 'a attempt" where
  "retryError meta e = (if retryable meta e then RetryableError e else NonRetryableError e)"

type_synonym op_result = "unit go \<times> ResourceData \<times> calls"

text \<open>A loop over a slice of pointers whose body reads through each element: a nil
  element is a nil dereference, and \<open>None\<close> is that panic.\<close>

fun each_ptr :: "('a \<Rightarrow> 'b option) \<Rightarrow> 'a ptr list \<Rightarrow> 'b list option" where
  "each_ptr f [] = Some []"
| "each_ptr f (p # ps) =
     (case p of
        None \<Rightarrow> None
      | Some x \<Rightarrow>
          (case f x of
             None \<Rightarrow> None
           | Some y \<Rightarrow> (case each_ptr f ps of None \<Rightarrow> None | Some ys \<Rightarrow> Some (y # ys))))"

section \<open>tencentcloud_clickhouse_account_permission\<close>

definition tablePrivilegeInfo_of :: "tf_value \<Rightarrow> TablePrivilegeInfo" where
  "tablePrivilegeInfo_of item =
     (let tablePrivilegeListMap = as_map item in
      \<lparr>tpi_TableName =
         (case map_of tablePrivilegeListMap ''table_name'' of
            Some v \<Rightarrow> Some (as_string (Some v)) | None \<Rightarrow> None),
       tpi_TablePrivileges =
         (case map_of tablePrivilegeListMap ''table_privileges'' of
            Some v \<Rightarrow> as_set_List (Some v) | None \<Rightarrow> [])\<rparr>)"

definition databasePrivilegeInfo_of :: "tf_value \<Rightarrow> DatabasePrivilegeInfo" where
  "databasePrivilegeInfo_of item =
     (let dMap = as_map item in
      \<lparr>dpi_DatabaseName =
         (case map_of dMap ''database_name'' of
            Some v \<Rightarrow> Some (as_string (Some v)) | None \<Rightarrow> None),
       dpi_DatabasePrivileges =
         (case map_of dMap ''database_privileges'' of
            Some v \<Rightarrow> as_set_List (Some v) | None \<Rightarrow> []),
       dpi_TablePrivilegeList =
         (case map_of dMap ''table_privilege_list'' of
            Some v \<Rightarrow> map tablePrivilegeInfo_of (as_list (Some v)) | None \<Rightarrow> [])\<rparr>)"

definition ModifyUserNewPrivilege_attempt ::
  "TencentCloudClient \<Rightarrow> ModifyUserNewPrivilegeRequest \<Rightarrow> calls \<Rightarrow> unit attempt \<times> calls" where
  "ModifyUserNewPrivilege_attempt meta request lg =
     (case ModifyUserNewPrivilege meta lg request of
        Inl e \<Rightarrow> (retryError meta e, lg @ [Call_ModifyUserNewPrivilege request])
      | Inr result \<Rightarrow> (Done (), lg @ [Call_ModifyUserNewPrivilege request]))"

definition tablePrivilegeListMap_of :: "TablePrivilege \<Rightarrow> tf_value" where
  "tablePrivilegeListMap_of tablePrivilegeList =
     VMap ((case tp_TableName tablePrivilegeList of
              Some n \<Rightarrow> [(''table_name'', VString n)] | None \<Rightarrow> [])
         @ (case tp_TablePrivileges tablePrivilegeList of
              Some ps \<Rightarrow> [(''table_privileges'', VSet ps)] | None \<Rightarrow> []))"

definition databasePrivilegeListMap_of :: "DatabasePrivilege \<Rightarrow> tf_value option" where
  "databasePrivilegeListMap_of databasePrivilegeList =
     (let m = (case dp_DatabaseName databasePrivilegeList of
                 Some n \<Rightarrow> [(''database_name'', VString n)] | None \<Rightarrow> [])
            @ (case dp_DatabasePrivileges databasePrivilegeList of
                 Some ps \<Rightarrow> [(''database_privileges'', VSet ps)] | None \<Rightarrow> [])
      in case dp_TablePrivilegeList databasePrivilegeList of
           None \<Rightarrow> Some (VMap m)
         | Some tables \<Rightarrow>
             (case each_ptr (\<lambda>t. Some (tablePrivilegeListMap_of t)) tables of
                None \<Rightarrow> None
              | Some tablePrivilegeListList \<Rightarrow>
                  Some (VMap (m @ [(''table_privilege_list'', VList [VList tablePrivilegeListList])]))))"

text \<open>
  \<open>d.Set\<close> checks the value against the schema of the attribute and writes nothing when
  it does not fit; the code discards the error (\<open>_ = d.Set(...)\<close>). The values the
  operations write have the type of their attribute by construction, but for
  \<open>database_privilege_list\<close>: under \<open>table_privilege_list\<close> the schema wants a list of
  blocks, and the read puts there a list that holds the list of blocks
  (\<open>[]interface{}{tablePrivilegeListList}\<close>). So the attribute is written only when no
  database of the answer has a table list.
\<close>

fun is_block :: "tf_value \<Rightarrow> bool" where
  "is_block (VMap m) = True"
| "is_block _ = False"

fun table_privilege_list_fits :: "tf_value \<Rightarrow> bool" where
  "table_privilege_list_fits (VList blocks) = list_all is_block blocks"
| "table_privilege_list_fits _ = False"

definition database_privilege_list_fits :: "tf_value list \<Rightarrow> bool" where
  "database_privilege_list_fits items =
     list_all (\<lambda>item. is_block item \<and>
                 (case map_of (as_map item) ''table_privilege_list'' of
                    None \<Rightarrow> True
                  | Some v \<Rightarrow> table_privilege_list_fits v)) items"

definition resourceTencentCloudClickhouseAccountPermissionRead ::
  "TencentCloudClient \<Rightarrow> ResourceData \<Rightarrow> calls \<Rightarrow> op_result" where
  "resourceTencentCloudClickhouseAccountPermissionRead meta d lg =
     (let idSplit = strings_Split (rd_Id d) FILED_SP in
      if length idSplit \<noteq> 3
      then (Fail (''tencentcloud_clickhouse_account id is broken, id is '' @ rd_Id d), d, lg)
      else
        let lg' = lg @ [Call_DescribeCdwchAccountPermission (idSplit ! 0) (idSplit ! 1) (idSplit ! 2)]
        in case DescribeCdwchAccountPermission meta lg (idSplit ! 0) (idSplit ! 1) (idSplit ! 2) of
             Inl err \<Rightarrow> (Fail err, d, lg')
           | Inr None \<Rightarrow> (Ok (), SetId d [], lg')
           | Inr (Some accountPermission) \<Rightarrow>
               (let d1 = Set_if_present d ''instance_id''
                           (map_option VString (ap_InstanceId accountPermission));
                    d2 = Set_if_present d1 ''cluster''
                           (map_option VString (ap_Cluster accountPermission));
                    d3 = Set_if_present d2 ''user_name''
                           (map_option VString (ap_UserName accountPermission));
                    d4 = Set_if_present d3 ''all_database''
                           (map_option VBool (ap_AllDatabase accountPermission));
                    d5 = Set_if_present d4 ''global_privileges''
                           (map_option VSet (ap_GlobalPrivileges accountPermission))
                in case ap_DatabasePrivilegeList accountPermission of
                     None \<Rightarrow> (Ok (), d5, lg')
                   | Some dbs \<Rightarrow>
                       (case each_ptr databasePrivilegeListMap_of dbs of
                          None \<Rightarrow> (Panic, d5, lg')
                        | Some databasePrivilegeListList \<Rightarrow>
                            (Ok (),
                             (if database_privilege_list_fits databasePrivilegeListList
                              then Set_attr d5 ''database_privilege_list''
                                     (VList databasePrivilegeListList)
                              else d5),
                             lg'))))"

definition ClickhouseAccountPermission_createId :: "ResourceData \<Rightarrow> string" where
  "ClickhouseAccountPermission_createId d =
     as_string (Get d ''instance_id'') @ FILED_SP @ as_string (Get d ''cluster'')
       @ FILED_SP @ as_string (Get d ''user_name'')"

definition resourceTencentCloudClickhouseAccountPermissionCreate ::
  "TencentCloudClient \<Rightarrow> ResourceData \<Rightarrow> calls \<Rightarrow> op_result" where
  "resourceTencentCloudClickhouseAccountPermissionCreate meta d lg =
     (let request =
            \<lparr>mup_InstanceId = Some (as_string (Get d ''instance_id'')),
             mup_Cluster = Some (as_string (Get d ''cluster'')),
             mup_UserName = Some (as_string (Get d ''user_name'')),
             mup_AllDatabase = Some (as_bool (Get d ''all_database'')),
             mup_GlobalPrivileges = as_set_List (GetOk d ''global_privileges''),
             mup_DatabasePrivilegeList =
               map databasePrivilegeInfo_of (as_list (GetOk d ''database_privilege_list''))\<rparr>
      in case Retry (writeRetryTimeout meta) (ModifyUserNewPrivilege_attempt meta request) lg of
           (Fail err, lg') \<Rightarrow> (Fail err, d, lg')
         | (Panic, lg') \<Rightarrow> (Panic, d, lg')
         | (Ok u, lg') \<Rightarrow>
             resourceTencentCloudClickhouseAccountPermissionRead meta
               (SetId d (ClickhouseAccountPermission_createId d)) lg')"

definition resourceTencentCloudClickhouseAccountPermissionUpdate ::
  "TencentCloudClient \<Rightarrow> ResourceData \<Rightarrow> calls \<Rightarrow> op_result" where
  "resourceTencentCloudClickhouseAccountPermissionUpdate meta d lg =
     (let idSplit = strings_Split (rd_Id d) FILED_SP in
      if length idSplit \<noteq> 3
      then (Fail (''tencentcloud_clickhouse_account id is broken, id is '' @ rd_Id d), d, lg)
      else
        case find (HasChange d) [''instance_id'', ''cluster'', ''user_name''] of
          Some v \<Rightarrow> (Fail (''argument `'' @ v @ ''` cannot be changed''), d, lg)
        | None \<Rightarrow>
            (let request =
                   \<lparr>mup_InstanceId = Some (idSplit ! 0),
                    mup_Cluster = Some (idSplit ! 1),
                    mup_UserName = Some (idSplit ! 2),
                    mup_AllDatabase = Some (as_bool (Get d ''all_database'')),
                    mup_GlobalPrivileges =
                      (if HasChange d ''global_privileges''
                       then as_set_List (GetOk d ''global_privileges'') else []),
                    mup_DatabasePrivilegeList =
                      (if HasChange d ''database_privilege_list''
                       then map databasePrivilegeInfo_of (as_list (GetOk d ''database_privilege_list''))
                       else [])\<rparr>
             in case Retry (writeRetryTimeout meta) (ModifyUserNewPrivilege_attempt meta request) lg of
                  (Fail err, lg') \<Rightarrow> (Fail err, d, lg')
                | (Panic, lg') \<Rightarrow> (Panic, d, lg')
                | (Ok u, lg') \<Rightarrow> resourceTencentCloudClickhouseAccountPermissionRead meta d lg'))"

definition resourceTencentCloudClickhouseAccountPermissionDelete ::
  "TencentCloudClient \<Rightarrow> ResourceData \<Rightarrow> calls \<Rightarrow> op_result" where
  "resourceTencentCloudClickhouseAccountPermissionDelete meta d lg =
     (let idSplit = strings_Split (rd_Id d) FILED_SP in
      if length idSplit \<noteq> 3
      then (Fail (''tencentcloud_clickhouse_account id is broken, id is '' @ rd_Id d), d, lg)
      else
        let lg' = lg @ [Call_DescribeCkSqlApis (idSplit ! 0) (idSplit ! 1) (idSplit ! 2)
                          (DESCRIBE_CK_SQL_APIS_REVOKE_CLUSTER_USER meta)]
        in case DescribeCkSqlApis meta lg (idSplit ! 0) (idSplit ! 1) (idSplit ! 2)
                  (DESCRIBE_CK_SQL_APIS_REVOKE_CLUSTER_USER meta) of
             Some err \<Rightarrow> (Fail err, d, lg')
           | None \<Rightarrow> (Ok (), d, lg'))"

section \<open>tencentcloud_monitor_tmp_scrape_job\<close>

definition CreatePrometheusScrapeJob_attempt ::
  "TencentCloudClient \<Rightarrow> PrometheusScrapeJobRequest \<Rightarrow> calls \<Rightarrow> string ptr attempt \<times> calls" where
  "CreatePrometheusScrapeJob_attempt meta request lg =
     (case CreatePrometheusScrapeJob meta lg request of
        Inl e \<Rightarrow> (retryError meta e, lg @ [Call_CreatePrometheusScrapeJob request])
      | Inr result \<Rightarrow> (Done result, lg @ [Call_CreatePrometheusScrapeJob request]))"

definition UpdatePrometheusScrapeJob_attempt ::
  "TencentCloudClient \<Rightarrow> PrometheusScrapeJobRequest \<Rightarrow> calls \<Rightarrow> unit attempt \<times> calls" where
  "UpdatePrometheusScrapeJob_attempt meta request lg =
     (case UpdatePrometheusScrapeJob meta lg request of
        Inl e \<Rightarrow> (retryError meta e, lg @ [Call_UpdatePrometheusScrapeJob request])
      | Inr result \<Rightarrow> (Done (), lg @ [Call_UpdatePrometheusScrapeJob request]))"

definition resourceTencentCloudMonitorTmpScrapeJobRead ::
  "TencentCloudClient \<Rightarrow> ResourceData \<Rightarrow> calls \<Rightarrow> op_result" where
  "resourceTencentCloudMonitorTmpScrapeJobRead meta d lg =
     (let tmpScrapeJobId = rd_Id d;
          lg' = lg @ [Call_DescribeMonitorTmpScrapeJob tmpScrapeJobId]
      in case DescribeMonitorTmpScrapeJob meta lg tmpScrapeJobId of
           Inl err \<Rightarrow> (Fail err, d, lg')
         | Inr None \<Rightarrow>
             (Fail (''resource `tmpScrapeJob` '' @ tmpScrapeJobId @ '' does not exist''),
              SetId d [], lg')
         | Inr (Some tmpScrapeJob) \<Rightarrow>
             (let parts = strings_Split tmpScrapeJobId FILED_SP in
              if length parts \<le> 1 then (Panic, d, lg')
              else
                let d1 = Set_attr d ''instance_id'' (VString (parts ! 1));
                    d2 = Set_if_present d1 ''agent_id''
                           (map_option VString (psj_AgentId tmpScrapeJob));
                    d3 = Set_if_present d2 ''config''
                           (map_option VString (psj_Config tmpScrapeJob))
                in (Ok (), d3, lg')))"

definition MonitorTmpScrapeJob_createId :: "string \<Rightarrow> ResourceData \<Rightarrow> string" where
  "MonitorTmpScrapeJob_createId tmpScrapeJobId d =
     strings_Join [tmpScrapeJobId, as_string (GetOk d ''instance_id''),
                   as_string (GetOk d ''agent_id'')] FILED_SP"

definition resourceTencentCloudMonitorTmpScrapeJobCreate ::
  "TencentCloudClient \<Rightarrow> ResourceData \<Rightarrow> calls \<Rightarrow> op_result" where
  "resourceTencentCloudMonitorTmpScrapeJobCreate meta d lg =
     (let request =
            \<lparr>sj_JobId = None,
             sj_InstanceId = map_option (\<lambda>v. as_string (Some v)) (GetOk d ''instance_id''),
             sj_AgentId = map_option (\<lambda>v. as_string (Some v)) (GetOk d ''agent_id''),
             sj_Config = map_option (\<lambda>v. as_string (Some v)) (GetOk d ''config'')\<rparr>
      in case Retry (writeRetryTimeout meta) (CreatePrometheusScrapeJob_attempt meta request) lg of
           (Fail err, lg') \<Rightarrow> (Fail err, d, lg')
         | (Panic, lg') \<Rightarrow> (Panic, d, lg')
         | (Ok None, lg') \<Rightarrow> (Panic, d, lg')
         | (Ok (Some tmpScrapeJobId), lg') \<Rightarrow>
             resourceTencentCloudMonitorTmpScrapeJobRead meta
               (SetId d (MonitorTmpScrapeJob_createId tmpScrapeJobId d)) lg')"

definition resourceTencentCloudMonitorTmpScrapeJobUpdate ::
  "TencentCloudClient \<Rightarrow> ResourceData \<Rightarrow> calls \<Rightarrow> op_result" where
  "resourceTencentCloudMonitorTmpScrapeJobUpdate meta d lg =
     (let ids = strings_Split (rd_Id d) FILED_SP in
      if length ids < 3 then (Panic, d, lg)
      else if HasChange d ''instance_id''
      then (Fail ''`instance_id` do not support change now.'', d, lg)
      else if HasChange d ''agent_id''
      then (Fail ''`agent_id` do not support change now.'', d, lg)
      else
        let request =
              \<lparr>sj_JobId = Some (ids ! 0),
               sj_InstanceId = Some (ids ! 1),
               sj_AgentId = Some (ids ! 2),
               sj_Config =
                 (if HasChange d ''config''
                  then map_option (\<lambda>v. as_string (Some v)) (GetOk d ''config'') else None)\<rparr>
        in case Retry (writeRetryTimeout meta) (UpdatePrometheusScrapeJob_attempt meta request) lg of
             (Fail err, lg') \<Rightarrow> (Fail err, d, lg')
           | (Panic, lg') \<Rightarrow> (Panic, d, lg')
           | (Ok u, lg') \<Rightarrow> resourceTencentCloudMonitorTmpScrapeJobRead meta d lg')"

definition resourceTencentCloudMonitorTmpScrapeJobDelete ::
  "TencentCloudClient \<Rightarrow> ResourceData \<Rightarrow> calls \<Rightarrow> op_result" where
  "resourceTencentCloudMonitorTmpScrapeJobDelete meta d lg =
     (let tmpScrapeJobId = rd_Id d;
          lg' = lg @ [Call_DeleteMonitorTmpScrapeJobById tmpScrapeJobId]
      in case DeleteMonitorTmpScrapeJobById meta lg tmpScrapeJobId of
           Some err \<Rightarrow> (Fail err, d, lg')
         | None \<Rightarrow> (Ok (), d, lg'))"

section \<open>tencentcloud_sqlserver_config_database_ct\<close>

text \<open>\<open>fmt.Errorf("id is broken,%s", idSplit)\<close> prints the slice between brackets, its
  elements separated by a space.\<close>

definition id_is_broken :: "string list \<Rightarrow> go_error" where
  "id_is_broken idSplit = ''id is broken,['' @ strings_Join idSplit '' '' @ '']''"

text \<open>The loop of the read over the databases of the instance: it stops at the first
  entry whose name is the one in the identifier, and reads three fields of that entry
  through their pointers. The result is \<open>(Name, modifyType, retentionPeriod)\<close>, all empty
  when no entry matches.\<close>

fun findDatabaseCT :: "DbNormalDetail ptr list \<Rightarrow> string \<Rightarrow> (string \<times> string \<times> string) option" where
  "findDatabaseCT [] dbName = Some ([], [], [])"
| "findDatabaseCT (p # ps) dbName =
     (case p of
        None \<Rightarrow> None
      | Some i \<Rightarrow>
          (case dnd_Name i of
             None \<Rightarrow> None
           | Some n \<Rightarrow>
               if n = dbName
               then (case dnd_IsDbChainingOn i of
                       None \<Rightarrow> None
                     | Some chaining \<Rightarrow>
                         (case dnd_RetentionPeriod i of
                            None \<Rightarrow> None
                          | Some retentionPeriod \<Rightarrow>
                              Some (n, if chaining = ''0'' then ''disable'' else ''enable'',
                                    retentionPeriod)))
               else findDatabaseCT ps dbName))"

definition resourceTencentCloudSqlserverConfigDatabaseCTRead ::
  "TencentCloudClient \<Rightarrow> ResourceData \<Rightarrow> calls \<Rightarrow> op_result" where
  "resourceTencentCloudSqlserverConfigDatabaseCTRead meta d lg =
     (let idSplit = strings_Split (rd_Id d) FILED_SP in
      if length idSplit \<noteq> 2 then (Fail (id_is_broken idSplit), d, lg)
      else
        let instanceId = idSplit ! 0;
            dbName = idSplit ! 1;
            lg' = lg @ [Call_DescribeSqlserverConfigDatabaseCTById instanceId]
        in case DescribeSqlserverConfigDatabaseCTById meta lg instanceId of
             Inl err \<Rightarrow> (Fail err, d, lg')
           | Inr None \<Rightarrow> (Ok (), SetId d [], lg')
           | Inr (Some configDatabaseCT) \<Rightarrow>
               (case findDatabaseCT configDatabaseCT dbName of
                  None \<Rightarrow> (Panic, d, lg')
                | Some (Name, modifyType, retentionPeriod) \<Rightarrow>
                    (let d1 = Set_attr d ''instance_id'' (VString instanceId);
                         d2 = Set_attr d1 ''db_name'' (VString Name);
                         d3 = Set_attr d2 ''modify_type'' (VString modifyType);
                         d4 = Set_attr d3 ''change_retention_day'' (VInt (Atoi_value retentionPeriod))
                     in (Ok (), d4, lg'))))"

definition ModifyDatabaseCT_attempt ::
  "TencentCloudClient \<Rightarrow> ModifyDatabaseCTRequest \<Rightarrow> calls \<Rightarrow> (64 word) attempt \<times> calls" where
  "ModifyDatabaseCT_attempt meta request lg =
     (let lg' = lg @ [Call_ModifyDatabaseCT request] in
      case ModifyDatabaseCT meta lg request of
        Inl e \<Rightarrow> (retryError meta e, lg')
      | Inr None \<Rightarrow> (NonRetryableError ''sqlserver configDatabaseCT not exists'', lg')
      | Inr (Some None) \<Rightarrow> (Panicked, lg')
      | Inr (Some (Some flowId)) \<Rightarrow> (Done flowId, lg'))"

text \<open>The body of the second retry loop, after the status query has answered without an
  error and with a status.\<close>

definition flowStatus_result :: "TencentCloudClient \<Rightarrow> 64 word \<Rightarrow> unit attempt" where
  "flowStatus_result meta status =
     (if status = SQLSERVER_TASK_SUCCESS meta then Done ()
      else if status = SQLSERVER_TASK_RUNNING meta
      then RetryableError ''sqlserver configDatabaseCT status is running''
      else if status = SQLSERVER_TASK_FAIL meta
      then NonRetryableError ''sqlserver configDatabaseCT status is fail''
      else NonRetryableError ''sqlserver configDatabaseCT status illegal'')"

definition DescribeFlowStatus_attempt ::
  "TencentCloudClient \<Rightarrow> 64 word \<Rightarrow> calls \<Rightarrow> unit attempt \<times> calls" where
  "DescribeFlowStatus_attempt meta flowId lg =
     (let lg' = lg @ [Call_DescribeFlowStatus flowId] in
      case DescribeFlowStatus meta lg flowId of
        Inl e \<Rightarrow> (retryError meta e, lg')
      | Inr None \<Rightarrow> (Panicked, lg')
      | Inr (Some status) \<Rightarrow> (flowStatus_result meta status, lg'))"

definition pollFlowStatus :: "TencentCloudClient \<Rightarrow> nat \<Rightarrow> 64 word \<Rightarrow> calls \<Rightarrow> unit go \<times> calls" where
  "pollFlowStatus meta t flowId lg = Retry t (DescribeFlowStatus_attempt meta flowId) lg"

definition resourceTencentCloudSqlserverConfigDatabaseCTUpdate ::
  "TencentCloudClient \<Rightarrow> ResourceData \<Rightarrow> calls \<Rightarrow> op_result" where
  "resourceTencentCloudSqlserverConfigDatabaseCTUpdate meta d lg =
     (let idSplit = strings_Split (rd_Id d) FILED_SP in
      if length idSplit \<noteq> 2 then (Fail (id_is_broken idSplit), d, lg)
      else
        let instanceId = idSplit ! 0;
            dbName = idSplit ! 1;
            request =
              \<lparr>mct_ModifyType = map_option (\<lambda>v. as_string (Some v)) (GetOk d ''modify_type''),
               mct_ChangeRetentionDay =
                 map_option (\<lambda>v. as_int (Some v)) (GetOk d ''change_retention_day''),
               mct_InstanceId = Some instanceId,
               mct_DBNames = [dbName]\<rparr>
        in case Retry (writeRetryTimeout meta) (ModifyDatabaseCT_attempt meta request) lg of
             (Fail err, lg1) \<Rightarrow> (Fail err, d, lg1)
           | (Panic, lg1) \<Rightarrow> (Panic, d, lg1)
           | (Ok flowId, lg1) \<Rightarrow>
               (case pollFlowStatus meta (10 * writeRetryTimeout meta) flowId lg1 of
                  (Fail err, lg2) \<Rightarrow> (Fail err, d, lg2)
                | (Panic, lg2) \<Rightarrow> (Panic, d, lg2)
                | (Ok u, lg2) \<Rightarrow> resourceTencentCloudSqlserverConfigDatabaseCTRead meta d lg2))"

definition SqlserverConfigDatabaseCT_createId :: "ResourceData \<Rightarrow> string" where
  "SqlserverConfigDatabaseCT_createId d =
     strings_Join [as_string (GetOk d ''instance_id''), as_string (GetOk d ''db_name'')] FILED_SP"

definition resourceTencentCloudSqlserverConfigDatabaseCTCreate ::
  "TencentCloudClient \<Rightarrow> ResourceData \<Rightarrow> calls \<Rightarrow> op_result" where
  "resourceTencentCloudSqlserverConfigDatabaseCTCreate meta d lg =
     resourceTencentCloudSqlserverConfigDatabaseCTUpdate meta
       (SetId d (SqlserverConfigDatabaseCT_createId d)) lg"

definition resourceTencentCloudSqlserverConfigDatabaseCTDelete ::
  "TencentCloudClient \<Rightarrow> ResourceData \<Rightarrow> calls \<Rightarrow> op_result" where
  "resourceTencentCloudSqlserverConfigDatabaseCTDelete meta d lg = (Ok (), d, lg)"

section \<open>tencentcloud_vpc_flow_log_config\<close>

definition resourceTencentCloudVpcFlowLogConfigRead ::
  "TencentCloudClient \<Rightarrow> ResourceData \<Rightarrow> calls \<Rightarrow> op_result" where
  "resourceTencentCloudVpcFlowLogConfigRead meta d lg =
     (let flowLogId = rd_Id d;
          lg' = lg @ [Call_DescribeFlowLogs flowLogId]
      in case DescribeFlowLogs meta lg flowLogId of
           Inl err \<Rightarrow> (Fail err, d, lg')
         | Inr flowLogs \<Rightarrow>
             (case flowLogs of
                [] \<Rightarrow> (Ok (), SetId d [], lg')
              | p # rest \<Rightarrow>
                  (let d1 = Set_attr d ''flow_log_id'' (VString flowLogId) in
                   case p of
                     None \<Rightarrow> (Panic, d1, lg')
                   | Some flowLogConfig \<Rightarrow>
                       (Ok (),
                        Set_if_present d1 ''enable'' (map_option VBool (fl_Enable flowLogConfig)),
                        lg'))))"

definition EnableFlowLogs_attempt ::
  "TencentCloudClient \<Rightarrow> string list \<Rightarrow> calls \<Rightarrow> unit attempt \<times> calls" where
  "EnableFlowLogs_attempt meta FlowLogIds lg =
     (case EnableFlowLogs meta lg FlowLogIds of
        Inl e \<Rightarrow> (retryError meta e, lg @ [Call_EnableFlowLogs FlowLogIds])
      | Inr result \<Rightarrow> (Done (), lg @ [Call_EnableFlowLogs FlowLogIds]))"

definition DisableFlowLogs_attempt ::
  "TencentCloudClient \<Rightarrow> string list \<Rightarrow> calls \<Rightarrow> unit attempt \<times> calls" where
  "DisableFlowLogs_attempt meta FlowLogIds lg =
     (case DisableFlowLogs meta lg FlowLogIds of
        Inl e \<Rightarrow> (retryError meta e, lg @ [Call_DisableFlowLogs FlowLogIds])
      | Inr result \<Rightarrow> (Done (), lg @ [Call_DisableFlowLogs FlowLogIds]))"

definition resourceTencentCloudVpcFlowLogConfigUpdate ::
  "TencentCloudClient \<Rightarrow> ResourceData \<Rightarrow> calls \<Rightarrow> op_result" where
  "resourceTencentCloudVpcFlowLogConfigUpdate meta d lg =
     (let flowLogId = rd_Id d;
          enable = as_bool (GetOkExists d ''enable'')
      in case Retry (writeRetryTimeout meta)
                (if enable then EnableFlowLogs_attempt meta [flowLogId]
                 else DisableFlowLogs_attempt meta [flowLogId]) lg of
           (Fail err, lg') \<Rightarrow> (Fail err, d, lg')
         | (Panic, lg') \<Rightarrow> (Panic, d, lg')
         | (Ok u, lg') \<Rightarrow> resourceTencentCloudVpcFlowLogConfigRead meta d lg')"

definition resourceTencentCloudVpcFlowLogConfigCreate ::
  "TencentCloudClient \<Rightarrow> ResourceData \<Rightarrow> calls \<Rightarrow> op_result" where
  "resourceTencentCloudVpcFlowLogConfigCreate meta d lg =
     resourceTencentCloudVpcFlowLogConfigUpdate meta
       (SetId d (as_string (Get d ''flow_log_id''))) lg"

definition resourceTencentCloudVpcFlowLogConfigDelete ::
  "TencentCloudClient \<Rightarrow> ResourceData \<Rightarrow> calls \<Rightarrow> op_result" where
  "resourceTencentCloudVpcFlowLogConfigDelete meta d lg = (Ok (), d, lg)"

section \<open>data source tencentcloud_scf_request_status\<close>

definition paramMap_of :: "ResourceData \<Rightarrow> (string \<times> string) list" where
  "paramMap_of d =
     concat (map (\<lambda>(k, name). case GetOk d k of
                                 Some v \<Rightarrow> [(name, as_string (Some v))] | None \<Rightarrow> [])
       [(''function_name'', ''FunctionName''),
        (''function_request_id'', ''FunctionRequestId''),
        (''namespace'', ''Namespace''),
        (''start_time'', ''StartTime''),
        (''end_time'', ''EndTime'')])"

definition DescribeScfRequestStatusByFilter_attempt ::
  "TencentCloudClient \<Rightarrow> (string \<times> string) list \<Rightarrow> calls
     \<Rightarrow> RequestStatus ptr list option attempt \<times> calls" where
  "DescribeScfRequestStatusByFilter_attempt meta paramMap lg =
     (case DescribeScfRequestStatusByFilter meta lg paramMap of
        Inl e \<Rightarrow> (retryError meta e, lg @ [Call_DescribeScfRequestStatusByFilter paramMap])
      | Inr result \<Rightarrow> (Done result, lg @ [Call_DescribeScfRequestStatusByFilter paramMap]))"

text \<open>One round of the loop over the returned list: the map of the fields that are not
  nil, each put under its nil check, and the element's \<open>*requestStatus.FunctionName\<close>
  for the identifier hash, read with no check.\<close>

definition guarded :: "string \<Rightarrow> ('a \<Rightarrow> tf_value) \<Rightarrow> 'a ptr \<Rightarrow> (string \<times> tf_value) list" where
  "guarded k mk p = (case p of None \<Rightarrow> [] | Some v \<Rightarrow> [(k, mk v)])"

definition requestStatus_round :: "RequestStatus \<Rightarrow> (tf_value \<times> string) option" where
  "requestStatus_round requestStatus =
     (let requestStatusMap =
            guarded ''function_name'' VString (rs_FunctionName requestStatus)
          @ guarded ''ret_msg'' VString (rs_RetMsg requestStatus)
          @ guarded ''request_id'' VString (rs_RequestId requestStatus)
          @ guarded ''start_time'' VString (rs_StartTime requestStatus)
          @ guarded ''ret_code'' VInt (rs_RetCode requestStatus)
          @ guarded ''duration'' VFloat (rs_Duration requestStatus)
          @ guarded ''mem_usage'' VFloat (rs_MemUsage requestStatus)
          @ guarded ''retry_num'' VInt (rs_RetryNum requestStatus)
      in case rs_FunctionName requestStatus of
           None \<Rightarrow> None
         | Some name \<Rightarrow> Some (VMap requestStatusMap, name))"

definition dataSourceTencentCloudScfRequestStatusRead ::
  "TencentCloudClient \<Rightarrow> ResourceData \<Rightarrow> calls \<Rightarrow> op_result" where
  "dataSourceTencentCloudScfRequestStatusRead meta d lg =
     (case Retry (readRetryTimeout meta)
             (DescribeScfRequestStatusByFilter_attempt meta (paramMap_of d)) lg of
        (Fail err, lg') \<Rightarrow> (Fail err, d, lg')
      | (Panic, lg') \<Rightarrow> (Panic, d, lg')
      | (Ok data, lg') \<Rightarrow>
          (case each_ptr requestStatus_round (case data of None \<Rightarrow> [] | Some xs \<Rightarrow> xs) of
             None \<Rightarrow> (Panic, d, lg')
           | Some rounds \<Rightarrow>
               (let ids = map snd rounds;
                    tmpList = map fst rounds;
                    d1 = (case data of None \<Rightarrow> d | Some xs \<Rightarrow> Set_attr d ''data'' (VList tmpList));
                    d2 = SetId d1 (DataResourceIdsHash meta ids)
                in case GetOk d2 ''result_output_file'' of
                     None \<Rightarrow> (Ok (), d2, lg')
                   | Some output \<Rightarrow>
                       (case writeToFile meta (as_string (Some output)) tmpList of
                          Some e \<Rightarrow> (Fail e, d2, lg')
                        | None \<Rightarrow> (Ok (), d2, lg')))))"

text \<open>Logging (\<open>log.Printf\<close>, \<open>logElapsed\<close>) and the deferred \<open>inconsistentCheck\<close> are not
  modelled.\<close>

section \<open>Concrete clients and resource data\<close>

text \<open>\<open>offline\<close>: every remote interaction fails with an error that is not retryable.
  \<open>online\<close>: every interaction succeeds and every lookup finds the resource.
  \<open>vanished\<close>: every interaction succeeds and every lookup reports the resource absent.\<close>

definition offline :: TencentCloudClient where
  "offline =
     \<lparr>writeRetryTimeout = 2, readRetryTimeout = 2,
      retryable = (\<lambda>e. False),
      DESCRIBE_CK_SQL_APIS_REVOKE_CLUSTER_USER = ''RevokeClusterUser'',
      SQLSERVER_TASK_SUCCESS = 0, SQLSERVER_TASK_RUNNING = 1, SQLSERVER_TASK_FAIL = 2,
      ModifyUserNewPrivilege = (\<lambda>lg r. Inl ''offline''),
      DescribeCdwchAccountPermission = (\<lambda>lg a b c. Inl ''offline''),
      DescribeCkSqlApis = (\<lambda>lg a b c t. Some ''offline''),
      CreatePrometheusScrapeJob = (\<lambda>lg r. Inl ''offline''),
      UpdatePrometheusScrapeJob = (\<lambda>lg r. Inl ''offline''),
      DescribeMonitorTmpScrapeJob = (\<lambda>lg i. Inl ''offline''),
      DeleteMonitorTmpScrapeJobById = (\<lambda>lg i. Some ''offline''),
      ModifyDatabaseCT = (\<lambda>lg r. Inl ''offline''),
      DescribeFlowStatus = (\<lambda>lg f. Inl ''offline''),
      DescribeSqlserverConfigDatabaseCTById = (\<lambda>lg i. Inl ''offline''),
      EnableFlowLogs = (\<lambda>lg i. Inl ''offline''),
      DisableFlowLogs = (\<lambda>lg i. Inl ''offline''),
      DescribeFlowLogs = (\<lambda>lg i. Inl ''offline''),
      DescribeScfRequestStatusByFilter = (\<lambda>lg p. Inl ''offline''),
      DataResourceIdsHash = (\<lambda>ids. concat ids),
      writeToFile = (\<lambda>f l. None)\<rparr>"

definition scf_status :: RequestStatus where
  "scf_status =
     \<lparr>rs_FunctionName = Some ''keep-1676351130'', rs_RetMsg = None, rs_RequestId = Some ''req-1'',
      rs_StartTime = None, rs_RetCode = Some 0, rs_Duration = None, rs_MemUsage = None,
      rs_RetryNum = None\<rparr>"

definition online :: TencentCloudClient where
  "online =
     offline
       \<lparr>ModifyUserNewPrivilege := (\<lambda>lg r. Inr ()),
        DescribeCdwchAccountPermission :=
          (\<lambda>lg a b c. Inr (Some \<lparr>ap_InstanceId = Some a, ap_Cluster = None, ap_UserName = Some c,
                                  ap_AllDatabase = Some False, ap_GlobalPrivileges = None,
                                  ap_DatabasePrivilegeList = None\<rparr>)),
        DescribeCkSqlApis := (\<lambda>lg a b c t. None),
        CreatePrometheusScrapeJob := (\<lambda>lg r. Inr (Some ''job-1'')),
        UpdatePrometheusScrapeJob := (\<lambda>lg r. Inr ()),
        DescribeMonitorTmpScrapeJob :=
          (\<lambda>lg i. Inr (Some \<lparr>psj_AgentId = Some ''agent-1'', psj_Config = None\<rparr>)),
        DeleteMonitorTmpScrapeJobById := (\<lambda>lg i. None),
        ModifyDatabaseCT := (\<lambda>lg r. Inr (Some (Some 5))),
        DescribeFlowStatus := (\<lambda>lg f. Inr (Some 0)),
        DescribeSqlserverConfigDatabaseCTById :=
          (\<lambda>lg i. Inr (Some [Some \<lparr>dnd_Name = Some ''db2'', dnd_IsDbChainingOn = Some ''1'',
                                     dnd_RetentionPeriod = Some ''5''\<rparr>])),
        EnableFlowLogs := (\<lambda>lg i. Inr ()),
        DisableFlowLogs := (\<lambda>lg i. Inr ()),
        DescribeFlowLogs := (\<lambda>lg i. Inr [Some \<lparr>fl_Enable = None\<rparr>]),
        DescribeScfRequestStatusByFilter := (\<lambda>lg p. Inr (Some [Some scf_status]))\<rparr>"

definition vanished :: TencentCloudClient where
  "vanished =
     online
       \<lparr>DescribeCdwchAccountPermission := (\<lambda>lg a b c. Inr None),
        DescribeMonitorTmpScrapeJob := (\<lambda>lg i. Inr None),
        DescribeSqlserverConfigDatabaseCTById := (\<lambda>lg i. Inr None),
        DescribeFlowLogs := (\<lambda>lg i. Inr [])\<rparr>"

definition flow_client :: "64 word \<Rightarrow> TencentCloudClient" where
  "flow_client status = offline\<lparr>DescribeFlowStatus := (\<lambda>lg flowId. Inr (Some status))\<rparr>"

definition blank :: ResourceData where
  "blank = \<lparr>rd_Id = [], rd_state = Map.empty, rd_plan = Map.empty, rd_written = Map.empty\<rparr>"

definition clickhouse_example :: ResourceData where
  "clickhouse_example =
     \<lparr>rd_Id = ''cdwch-1#default_cluster#user1'',
      rd_state = [''instance_id'' \<mapsto> VString ''cdwch-1'', ''cluster'' \<mapsto> VString ''default_cluster'',
                  ''user_name'' \<mapsto> VString ''user1'', ''all_database'' \<mapsto> VBool True],
      rd_plan = [''instance_id'' \<mapsto> VString ''cdwch-1'', ''cluster'' \<mapsto> VString ''default_cluster'',
                 ''user_name'' \<mapsto> VString ''user1'', ''all_database'' \<mapsto> VBool True],
      rd_written = Map.empty\<rparr>"

definition sqlserver_example :: ResourceData where
  "sqlserver_example =
     \<lparr>rd_Id = ''mssql-1#db1'',
      rd_state = Map.empty,
      rd_plan = [''instance_id'' \<mapsto> VString ''mssql-1'', ''db_name'' \<mapsto> VString ''db1'',
                 ''modify_type'' \<mapsto> VString ''enable'', ''change_retention_day'' \<mapsto> VInt 7],
      rd_written = Map.empty\<rparr>"

definition scrape_example :: ResourceData where
  "scrape_example =
     \<lparr>rd_Id = ''job-1#prom-1#agent-1'',
      rd_state = [''instance_id'' \<mapsto> VString ''prom-1'', ''agent_id'' \<mapsto> VString ''agent-1''],
      rd_plan = [''instance_id'' \<mapsto> VString ''prom-1'', ''agent_id'' \<mapsto> VString ''agent-1''],
      rd_written = Map.empty\<rparr>"

definition vpc_example :: ResourceData where
  "vpc_example =
     \<lparr>rd_Id = ''fl-1'',
      rd_state = Map.empty,
      rd_plan = [''flow_log_id'' \<mapsto> VString ''fl-1'', ''enable'' \<mapsto> VBool True],
      rd_written = Map.empty\<rparr>"

text \<open>A change of one planned value, the stored state staying as it is.\<close>

definition replan :: "ResourceData \<Rightarrow> string \<Rightarrow> tf_value \<Rightarrow> ResourceData" where
  "replan d k v = d\<lparr>rd_plan := (rd_plan d)(k \<mapsto> v)\<rparr>"

section \<open>Basic facts\<close>

declare Retry.simps [simp del]

lemmas example_defs = clickhouse_example_def sqlserver_example_def scrape_example_def
  vpc_example_def online_def vanished_def offline_def flow_client_def scf_status_def blank_def
  replan_def

lemmas eval_defs = strings_Split_def FILED_SP_def Get_def GetOk_def GetOkExists_def
  HasChange_def nonzero_def SetId_def Set_attr_def Set_if_present_def retryError_def Let_def

lemma Retry_Done: "f lg = (Done v, lg') \<Longrightarrow> Retry t f lg = (Ok v, lg')"
  by (simp add: Retry.simps)

lemma Retry_NonRetryable: "f lg = (NonRetryableError e, lg') \<Longrightarrow> Retry t f lg = (Fail e, lg')"
  by (simp add: Retry.simps)

lemma Retry_Panicked: "f lg = (Panicked, lg') \<Longrightarrow> Retry t f lg = (Panic, lg')"
  by (simp add: Retry.simps)

lemma Retry_Retryable_0: "f lg = (RetryableError e, lg') \<Longrightarrow> Retry 0 f lg = (Fail e, lg')"
  by (simp add: Retry.simps)

lemma Retry_Retryable_Suc:
  "f lg = (RetryableError e, lg') \<Longrightarrow> Retry (Suc t) f lg = Retry t f lg'"
  by (subst Retry.simps) simp

lemma rd_Id_Set_attr [simp]: "rd_Id (Set_attr d k v) = rd_Id d"
  by (simp add: Set_attr_def)

lemma rd_Id_Set_if_present [simp]: "rd_Id (Set_if_present d k p) = rd_Id d"
  by (simp add: Set_if_present_def split: option.splits)

lemma rd_Id_SetId [simp]: "rd_Id (SetId d s) = s"
  by (simp add: SetId_def)

lemma Get_Set_attr [simp]: "Get (Set_attr d k v) k' = (if k' = k then Some v else Get d k')"
  by (simp add: Get_def Set_attr_def split: option.splits)

lemma Get_Set_if_present [simp]:
  "Get (Set_if_present d k p) k' =
     (if k' = k then (case p of Some v \<Rightarrow> Some v | None \<Rightarrow> Get d k) else Get d k')"
  by (simp add: Set_if_present_def split: option.splits)

lemma Get_SetId [simp]: "Get (SetId d s) k = Get d k"
  by (simp add: Get_def SetId_def split: option.splits)

lemma GetOk_SetId [simp]: "GetOk (SetId d s) k = GetOk d k"
  by (simp add: GetOk_def)

lemma HasChange_SetId [simp]: "HasChange (SetId d s) k = HasChange d k"
  by (simp add: HasChange_def SetId_def)

subsection \<open>Splitting at the separator\<close>






subsection \<open>What a failing or a succeeding operation leaves in the resource data\<close>



lemma SqlserverRead_Fail_keeps:
  "resourceTencentCloudSqlserverConfigDatabaseCTRead meta d lg = (Fail e, d', lg') \<Longrightarrow> d' = d"
  by (auto simp: resourceTencentCloudSqlserverConfigDatabaseCTRead_def Let_def
      split: if_splits sum.splits option.splits)


lemma SqlserverUpdate_Fail_keeps:
  "resourceTencentCloudSqlserverConfigDatabaseCTUpdate meta d lg = (Fail e, d', lg') \<Longrightarrow> d' = d"
  by (auto simp: resourceTencentCloudSqlserverConfigDatabaseCTUpdate_def Let_def
      split: if_splits prod.splits go.splits dest: SqlserverRead_Fail_keeps)


lemma VpcRead_Fail_keeps:
  "resourceTencentCloudVpcFlowLogConfigRead meta d lg = (Fail e, d', lg') \<Longrightarrow> d' = d"
  by (auto simp: resourceTencentCloudVpcFlowLogConfigRead_def Let_def
      split: if_splits sum.splits option.splits list.splits)

lemma VpcUpdate_Fail_keeps:
  "resourceTencentCloudVpcFlowLogConfigUpdate meta d lg = (Fail e, d', lg') \<Longrightarrow> d' = d"
  by (auto simp: resourceTencentCloudVpcFlowLogConfigUpdate_def Let_def
      split: if_splits prod.splits go.splits dest: VpcRead_Fail_keeps)



subsection \<open>The example identifiers\<close>

lemma clickhouse_example_split:
  "strings_Split (rd_Id clickhouse_example) FILED_SP = [''cdwch-1'', ''default_cluster'', ''user1'']"
  by (simp add: clickhouse_example_def strings_Split_def FILED_SP_def)

lemma sqlserver_example_split:
  "strings_Split (rd_Id sqlserver_example) FILED_SP = [''mssql-1'', ''db1'']"
  by (simp add: sqlserver_example_def strings_Split_def FILED_SP_def)

lemma scrape_example_split:
  "strings_Split (rd_Id scrape_example) FILED_SP = [''job-1'', ''prom-1'', ''agent-1'']"
  by (simp add: scrape_example_def strings_Split_def FILED_SP_def)

lemma rd_Id_replan [simp]: "rd_Id (replan d k v) = rd_Id d"
  by (simp add: replan_def)

subsection \<open>Loops over the answers\<close>

lemma each_ptr_Some_all:
  "each_ptr f ps = Some ys \<Longrightarrow> \<forall>p \<in> set ps. \<exists>x. p = Some x \<and> f x \<noteq> None"
  by (induction ps arbitrary: ys) (auto split: option.splits)

lemma requestStatus_round_None:
  "requestStatus_round r = None \<longleftrightarrow> rs_FunctionName r = None"
  by (simp add: requestStatus_round_def Let_def split: option.splits)

lemma findDatabaseCT_no_match:
  "\<forall>p \<in> set dbs. \<exists>i n. p = Some i \<and> dnd_Name i = Some n \<and> n \<noteq> dbName \<Longrightarrow>
     findDatabaseCT dbs dbName = Some ([], [], [])"
  by (induction dbs) auto

lemma Atoi_value_empty: "Atoi_value [] = 0"
  by (simp add: Atoi_value_def)

subsection \<open>The log of calls\<close>

lemma Retry_log:
  assumes "\<And>l. snd (f l) = l @ [c]"
  shows "\<exists>rest. snd (Retry t f lg) = lg @ c # rest"
proof (induction t arbitrary: lg)
  case 0
  obtain a where a: "f lg = (a, lg @ [c])"
    using assms [of lg] by (cases "f lg") simp
  show ?case
    by (cases a) (simp_all add: Retry.simps a)
next
  case (Suc t)
  obtain a where a: "f lg = (a, lg @ [c])"
    using assms [of lg] by (cases "f lg") simp
  show ?case
  proof (cases a)
    case (RetryableError e)
    from Suc.IH [of "lg @ [c]"] obtain rest where
      "snd (Retry t f (lg @ [c])) = (lg @ [c]) @ c # rest" by blast
    then show ?thesis
      using a RetryableError by (simp add: Retry_Retryable_Suc)
  qed (simp_all add: Retry.simps a)
qed

lemma Retry_log_eq:
  assumes "\<And>l. snd (f l) = l @ [c]" and "Retry t f lg = (r, lg1)"
  shows "\<exists>rest. lg1 = lg @ c # rest"
  using Retry_log [OF assms(1), of t lg] assms(2) by simp

lemma attempt_logs:
  "snd (ModifyUserNewPrivilege_attempt meta r1 l) = l @ [Call_ModifyUserNewPrivilege r1]"
  "snd (CreatePrometheusScrapeJob_attempt meta r2 l) = l @ [Call_CreatePrometheusScrapeJob r2]"
  "snd (UpdatePrometheusScrapeJob_attempt meta r2 l) = l @ [Call_UpdatePrometheusScrapeJob r2]"
  "snd (ModifyDatabaseCT_attempt meta r3 l) = l @ [Call_ModifyDatabaseCT r3]"
  "snd (DescribeFlowStatus_attempt meta flowId l) = l @ [Call_DescribeFlowStatus flowId]"
  "snd (EnableFlowLogs_attempt meta ids l) = l @ [Call_EnableFlowLogs ids]"
  "snd (DisableFlowLogs_attempt meta ids l) = l @ [Call_DisableFlowLogs ids]"
  by (simp_all add: ModifyUserNewPrivilege_attempt_def CreatePrometheusScrapeJob_attempt_def
      UpdatePrometheusScrapeJob_attempt_def ModifyDatabaseCT_attempt_def
      DescribeFlowStatus_attempt_def EnableFlowLogs_attempt_def DisableFlowLogs_attempt_def
      Let_def split: sum.splits option.splits)




lemma ClickhouseRead_Ok_cases:
  assumes "resourceTencentCloudClickhouseAccountPermissionRead meta d lg = (Ok u, d', lg')"
  shows "lg' = lg @ [Call_DescribeCdwchAccountPermission (strings_Split (rd_Id d) FILED_SP ! 0)
                       (strings_Split (rd_Id d) FILED_SP ! 1) (strings_Split (rd_Id d) FILED_SP ! 2)] \<and>
         rd_Id d' =
           (if DescribeCdwchAccountPermission meta lg (strings_Split (rd_Id d) FILED_SP ! 0)
                 (strings_Split (rd_Id d) FILED_SP ! 1) (strings_Split (rd_Id d) FILED_SP ! 2) = Inr None
            then [] else rd_Id d)"
  using assms
  by (auto simp: resourceTencentCloudClickhouseAccountPermissionRead_def Let_def
      split: if_splits sum.splits option.splits)

lemma SqlserverRead_Ok_cases:
  assumes "resourceTencentCloudSqlserverConfigDatabaseCTRead meta d lg = (Ok u, d', lg')"
  shows "lg' = lg @ [Call_DescribeSqlserverConfigDatabaseCTById (strings_Split (rd_Id d) FILED_SP ! 0)] \<and>
         rd_Id d' =
           (if DescribeSqlserverConfigDatabaseCTById meta lg (strings_Split (rd_Id d) FILED_SP ! 0) = Inr None
            then [] else rd_Id d)"
  using assms
  by (auto simp: resourceTencentCloudSqlserverConfigDatabaseCTRead_def Let_def
      split: if_splits sum.splits option.splits)

lemma VpcRead_Ok_cases:
  assumes "resourceTencentCloudVpcFlowLogConfigRead meta d lg = (Ok u, d', lg')"
  shows "lg' = lg @ [Call_DescribeFlowLogs (rd_Id d)] \<and>
         rd_Id d' = (if DescribeFlowLogs meta lg (rd_Id d) = Inr [] then [] else rd_Id d)"
  using assms
  by (auto simp: resourceTencentCloudVpcFlowLogConfigRead_def Let_def
      split: if_splits sum.splits option.splits list.splits)

lemma ScrapeRead_Ok_cases:
  assumes "resourceTencentCloudMonitorTmpScrapeJobRead meta d lg = (Ok u, d', lg')"
  shows "lg' = lg @ [Call_DescribeMonitorTmpScrapeJob (rd_Id d)] \<and> rd_Id d' = rd_Id d \<and>
         (\<exists>tmpScrapeJob. DescribeMonitorTmpScrapeJob meta lg (rd_Id d) = Inr (Some tmpScrapeJob))"
  using assms
  by (auto simp: resourceTencentCloudMonitorTmpScrapeJobRead_def Let_def
      split: if_splits sum.splits option.splits)

lemma pollFlowStatus_log:
  "pollFlowStatus meta t flowId lg = (r, lg') \<Longrightarrow>
     \<exists>rest. lg' = lg @ Call_DescribeFlowStatus flowId # rest"
  unfolding pollFlowStatus_def by (rule Retry_log_eq [OF attempt_logs(5)])

lemma ClickhouseCreate_Ok_cases:
  assumes "resourceTencentCloudClickhouseAccountPermissionCreate meta d lg = (Ok u, d', lg')"
  shows "\<exists>request rest.
           lg' = lg @ Call_ModifyUserNewPrivilege request # rest @
                   [Call_DescribeCdwchAccountPermission
                      (strings_Split (ClickhouseAccountPermission_createId d) FILED_SP ! 0)
                      (strings_Split (ClickhouseAccountPermission_createId d) FILED_SP ! 1)
                      (strings_Split (ClickhouseAccountPermission_createId d) FILED_SP ! 2)] \<and>
           rd_Id d' =
             (if DescribeCdwchAccountPermission meta (lg @ Call_ModifyUserNewPrivilege request # rest)
                   (strings_Split (ClickhouseAccountPermission_createId d) FILED_SP ! 0)
                   (strings_Split (ClickhouseAccountPermission_createId d) FILED_SP ! 1)
                   (strings_Split (ClickhouseAccountPermission_createId d) FILED_SP ! 2) = Inr None
              then [] else ClickhouseAccountPermission_createId d)"
proof -
  have "\<exists>request lg1.
          Retry (writeRetryTimeout meta) (ModifyUserNewPrivilege_attempt meta request) lg = (Ok (), lg1) \<and>
          resourceTencentCloudClickhouseAccountPermissionRead meta
            (SetId d (ClickhouseAccountPermission_createId d)) lg1 = (Ok u, d', lg')"
    using assms
    by (auto simp: resourceTencentCloudClickhouseAccountPermissionCreate_def Let_def
        split: prod.splits go.splits)
  then obtain request lg1 where
    R: "Retry (writeRetryTimeout meta) (ModifyUserNewPrivilege_attempt meta request) lg = (Ok (), lg1)"
    and rd: "resourceTencentCloudClickhouseAccountPermissionRead meta
            (SetId d (ClickhouseAccountPermission_createId d)) lg1 = (Ok u, d', lg')"
    by blast
  from Retry_log_eq [OF attempt_logs(1) R] obtain rest where
    lg1: "lg1 = lg @ Call_ModifyUserNewPrivilege request # rest" by blast
  from ClickhouseRead_Ok_cases [OF rd] show ?thesis
    unfolding lg1 by (intro exI [of _ request] exI [of _ rest]) simp
qed

lemma SqlserverUpdate_Ok_cases:
  assumes "resourceTencentCloudSqlserverConfigDatabaseCTUpdate meta d lg = (Ok u, d', lg')"
  shows "\<exists>request rest.
           lg' = lg @ Call_ModifyDatabaseCT request # rest @
                   [Call_DescribeSqlserverConfigDatabaseCTById (strings_Split (rd_Id d) FILED_SP ! 0)] \<and>
           rd_Id d' =
             (if DescribeSqlserverConfigDatabaseCTById meta (lg @ Call_ModifyDatabaseCT request # rest)
                   (strings_Split (rd_Id d) FILED_SP ! 0) = Inr None
              then [] else rd_Id d)"
proof -
  have "\<exists>request flowId lg1 lg2.
          Retry (writeRetryTimeout meta) (ModifyDatabaseCT_attempt meta request) lg = (Ok flowId, lg1) \<and>
          pollFlowStatus meta (10 * writeRetryTimeout meta) flowId lg1 = (Ok (), lg2) \<and>
          resourceTencentCloudSqlserverConfigDatabaseCTRead meta d lg2 = (Ok u, d', lg')"
    using assms
    by (auto simp: resourceTencentCloudSqlserverConfigDatabaseCTUpdate_def Let_def
        split: if_splits prod.splits go.splits)
  then obtain request flowId lg1 lg2 where
    R: "Retry (writeRetryTimeout meta) (ModifyDatabaseCT_attempt meta request) lg = (Ok flowId, lg1)"
    and P: "pollFlowStatus meta (10 * writeRetryTimeout meta) flowId lg1 = (Ok (), lg2)"
    and rd: "resourceTencentCloudSqlserverConfigDatabaseCTRead meta d lg2 = (Ok u, d', lg')"
    by blast
  from Retry_log_eq [OF attempt_logs(4) R] obtain rest1 where
    lg1: "lg1 = lg @ Call_ModifyDatabaseCT request # rest1" by blast
  from pollFlowStatus_log [OF P] obtain rest2 where
    lg2: "lg2 = lg1 @ Call_DescribeFlowStatus flowId # rest2" by blast
  have lg2': "lg2 = lg @ Call_ModifyDatabaseCT request # (rest1 @ Call_DescribeFlowStatus flowId # rest2)"
    by (simp add: lg1 lg2)
  from SqlserverRead_Ok_cases [OF rd] show ?thesis
    unfolding lg2'
    by (intro exI [of _ request] exI [of _ "rest1 @ Call_DescribeFlowStatus flowId # rest2"]) simp
qed

lemma VpcUpdate_Ok_cases:
  assumes "resourceTencentCloudVpcFlowLogConfigUpdate meta d lg = (Ok u, d', lg')"
  shows "\<exists>rest.
           lg' = lg @ (if as_bool (Get d ''enable'') then Call_EnableFlowLogs [rd_Id d]
                       else Call_DisableFlowLogs [rd_Id d]) # rest @
                   [Call_DescribeFlowLogs (rd_Id d)] \<and>
           rd_Id d' =
             (if DescribeFlowLogs meta
                   (lg @ (if as_bool (Get d ''enable'') then Call_EnableFlowLogs [rd_Id d]
                          else Call_DisableFlowLogs [rd_Id d]) # rest) (rd_Id d) = Inr []
              then [] else rd_Id d)"
proof -
  let ?f = "if as_bool (Get d ''enable'') then EnableFlowLogs_attempt meta [rd_Id d]
            else DisableFlowLogs_attempt meta [rd_Id d]"
  let ?c = "if as_bool (Get d ''enable'') then Call_EnableFlowLogs [rd_Id d]
            else Call_DisableFlowLogs [rd_Id d]"
  have f: "snd (?f l) = l @ [?c]" for l
    by (simp add: attempt_logs)
  have "\<exists>lg1. Retry (writeRetryTimeout meta) ?f lg = (Ok (), lg1) \<and>
          resourceTencentCloudVpcFlowLogConfigRead meta d lg1 = (Ok u, d', lg')"
    using assms
    by (auto simp: resourceTencentCloudVpcFlowLogConfigUpdate_def Let_def GetOkExists_def
        split: prod.splits go.splits)
  then obtain lg1 where
    R: "Retry (writeRetryTimeout meta) ?f lg = (Ok (), lg1)"
    and rd: "resourceTencentCloudVpcFlowLogConfigRead meta d lg1 = (Ok u, d', lg')"
    by blast
  from Retry_log_eq [of ?f ?c, OF f R] obtain rest where
    lg1: "lg1 = lg @ ?c # rest" by blast
  from VpcRead_Ok_cases [OF rd] show ?thesis
    unfolding lg1 by (intro exI [of _ rest]) simp
qed

lemma ScrapeCreate_Ok_cases:
  assumes "resourceTencentCloudMonitorTmpScrapeJobCreate meta d lg = (Ok u, d', lg')"
  shows "\<exists>request tmpScrapeJobId rest tmpScrapeJob.
           lg' = lg @ Call_CreatePrometheusScrapeJob request # rest @
                   [Call_DescribeMonitorTmpScrapeJob (MonitorTmpScrapeJob_createId tmpScrapeJobId d)] \<and>
           rd_Id d' = MonitorTmpScrapeJob_createId tmpScrapeJobId d \<and>
           DescribeMonitorTmpScrapeJob meta (lg @ Call_CreatePrometheusScrapeJob request # rest)
             (MonitorTmpScrapeJob_createId tmpScrapeJobId d) = Inr (Some tmpScrapeJob)"
proof -
  have "\<exists>request tmpScrapeJobId lg1.
          Retry (writeRetryTimeout meta) (CreatePrometheusScrapeJob_attempt meta request) lg =
            (Ok (Some tmpScrapeJobId), lg1) \<and>
          resourceTencentCloudMonitorTmpScrapeJobRead meta
            (SetId d (MonitorTmpScrapeJob_createId tmpScrapeJobId d)) lg1 = (Ok u, d', lg')"
    using assms
    by (auto simp: resourceTencentCloudMonitorTmpScrapeJobCreate_def Let_def
        split: prod.splits go.splits option.splits)
  then obtain request tmpScrapeJobId lg1 where
    R: "Retry (writeRetryTimeout meta) (CreatePrometheusScrapeJob_attempt meta request) lg =
            (Ok (Some tmpScrapeJobId), lg1)"
    and rd: "resourceTencentCloudMonitorTmpScrapeJobRead meta
            (SetId d (MonitorTmpScrapeJob_createId tmpScrapeJobId d)) lg1 = (Ok u, d', lg')"
    by blast
  from Retry_log_eq [OF attempt_logs(2) R] obtain rest where
    lg1: "lg1 = lg @ Call_CreatePrometheusScrapeJob request # rest" by blast
  from ScrapeRead_Ok_cases [OF rd] obtain tmpScrapeJob where
    "lg' = lg1 @ [Call_DescribeMonitorTmpScrapeJob (MonitorTmpScrapeJob_createId tmpScrapeJobId d)]"
    "rd_Id d' = MonitorTmpScrapeJob_createId tmpScrapeJobId d"
    "DescribeMonitorTmpScrapeJob meta lg1 (MonitorTmpScrapeJob_createId tmpScrapeJobId d) =
       Inr (Some tmpScrapeJob)"
    by auto
  then show ?thesis
    unfolding lg1
    by (intro exI [of _ request] exI [of _ tmpScrapeJobId] exI [of _ rest] exI [of _ tmpScrapeJob])
      simp
qed

subsection \<open>Updates that get past the identifier check, and the sqlserver read\<close>




lemma findDatabaseCT_match:
  "\<forall>p \<in> set pre. \<exists>j n. p = Some j \<and> dnd_Name j = Some n \<and> n \<noteq> dbName \<Longrightarrow>
   dnd_Name i = Some dbName \<Longrightarrow> dnd_IsDbChainingOn i = Some chaining \<Longrightarrow>
   dnd_RetentionPeriod i = Some retentionPeriod \<Longrightarrow>
     findDatabaseCT (pre @ Some i # post) dbName =
       Some (dbName, if chaining = ''0'' then ''disable'' else ''enable'', retentionPeriod)"
  by (induction pre) auto

lemma SqlserverRead_found:
  assumes "length (strings_Split (rd_Id d) FILED_SP) = 2"
    and "DescribeSqlserverConfigDatabaseCTById meta lg (strings_Split (rd_Id d) FILED_SP ! 0) =
           Inr (Some dbs)"
    and "findDatabaseCT dbs (strings_Split (rd_Id d) FILED_SP ! 1) =
           Some (Name, modifyType, retentionPeriod)"
  shows "resourceTencentCloudSqlserverConfigDatabaseCTRead meta d lg =
           (Ok (),
            Set_attr (Set_attr (Set_attr (Set_attr d
              ''instance_id'' (VString (strings_Split (rd_Id d) FILED_SP ! 0)))
              ''db_name'' (VString Name))
              ''modify_type'' (VString modifyType))
              ''change_retention_day'' (VInt (Atoi_value retentionPeriod)),
            lg @ [Call_DescribeSqlserverConfigDatabaseCTById (strings_Split (rd_Id d) FILED_SP ! 0)])"
  using assms by (simp add: resourceTencentCloudSqlserverConfigDatabaseCTRead_def Let_def)

lemma SqlserverRead_Ok_written:
  assumes "resourceTencentCloudSqlserverConfigDatabaseCTRead meta d lg = (Ok u, d', lg')"
  shows "(DescribeSqlserverConfigDatabaseCTById meta lg (strings_Split (rd_Id d) FILED_SP ! 0) =
            Inr None \<and> d' = SetId d []) \<or>
         (\<exists>dbs Name modifyType retentionPeriod.
            DescribeSqlserverConfigDatabaseCTById meta lg (strings_Split (rd_Id d) FILED_SP ! 0) =
              Inr (Some dbs) \<and>
            findDatabaseCT dbs (strings_Split (rd_Id d) FILED_SP ! 1) =
              Some (Name, modifyType, retentionPeriod) \<and>
            d' = Set_attr (Set_attr (Set_attr (Set_attr d
                   ''instance_id'' (VString (strings_Split (rd_Id d) FILED_SP ! 0)))
                   ''db_name'' (VString Name))
                   ''modify_type'' (VString modifyType))
                   ''change_retention_day'' (VInt (Atoi_value retentionPeriod)))"
  using assms
  by (auto simp: resourceTencentCloudSqlserverConfigDatabaseCTRead_def Let_def
      split: if_splits sum.splits option.splits)

section \<open>The asynchronous-completion polling loop\<close>

text \<open>
  Claim C4. In the second retry loop of the sqlserver config-database-CT update, once the
  status query has answered with a status: the success code ends the loop with success
  after that one query, whatever time is left; the running code (when it is not also the
  success code) is a retryable error, so the loop goes on with the time that is left and
  ends with that error when none is left; any other status, the failure code or a code
  the program does not know, is an error that is not retryable, and ends the loop after
  that one query, whatever time is left.
\<close>

theorem flow_status_polling:
  assumes "DescribeFlowStatus meta lg flowId = Inr (Some status)"
  shows "(status = SQLSERVER_TASK_SUCCESS meta \<longrightarrow>
            pollFlowStatus meta t flowId lg = (Ok (), lg @ [Call_DescribeFlowStatus flowId])) \<and>
         (status = SQLSERVER_TASK_RUNNING meta \<and> status \<noteq> SQLSERVER_TASK_SUCCESS meta \<longrightarrow>
            flowStatus_result meta status =
              RetryableError ''sqlserver configDatabaseCT status is running'' \<and>
            pollFlowStatus meta (Suc t) flowId lg =
              pollFlowStatus meta t flowId (lg @ [Call_DescribeFlowStatus flowId]) \<and>
            pollFlowStatus meta 0 flowId lg =
              (Fail ''sqlserver configDatabaseCT status is running'',
               lg @ [Call_DescribeFlowStatus flowId])) \<and>
         (status \<noteq> SQLSERVER_TASK_SUCCESS meta \<and> status \<noteq> SQLSERVER_TASK_RUNNING meta \<longrightarrow>
            flowStatus_result meta status =
              NonRetryableError
                (if status = SQLSERVER_TASK_FAIL meta
                 then ''sqlserver configDatabaseCT status is fail''
                 else ''sqlserver configDatabaseCT status illegal'') \<and>
            pollFlowStatus meta t flowId lg =
              (Fail (if status = SQLSERVER_TASK_FAIL meta
                     then ''sqlserver configDatabaseCT status is fail''
                     else ''sqlserver configDatabaseCT status illegal''),
               lg @ [Call_DescribeFlowStatus flowId]))"
proof -
  let ?lg' = "lg @ [Call_DescribeFlowStatus flowId]"
  have step: "DescribeFlowStatus_attempt meta flowId lg = (flowStatus_result meta status, ?lg')"
    using assms by (simp add: DescribeFlowStatus_attempt_def)
  have success: "pollFlowStatus meta t flowId lg = (Ok (), ?lg')"
    if "status = SQLSERVER_TASK_SUCCESS meta"
    unfolding pollFlowStatus_def
    by (rule Retry_Done) (simp add: step flowStatus_result_def that)
  have running: "flowStatus_result meta status =
      RetryableError ''sqlserver configDatabaseCT status is running''"
    if "status = SQLSERVER_TASK_RUNNING meta" "status \<noteq> SQLSERVER_TASK_SUCCESS meta"
    using that by (simp add: flowStatus_result_def)
  have other: "flowStatus_result meta status =
      NonRetryableError (if status = SQLSERVER_TASK_FAIL meta
                 then ''sqlserver configDatabaseCT status is fail''
                 else ''sqlserver configDatabaseCT status illegal'')"
    if "status \<noteq> SQLSERVER_TASK_SUCCESS meta" "status \<noteq> SQLSERVER_TASK_RUNNING meta"
    using that by (simp add: flowStatus_result_def)
  show ?thesis
    using success running other step
    by (auto simp: pollFlowStatus_def Retry_Retryable_0 Retry_Retryable_Suc Retry_NonRetryable)
qed

text \<open>Claim C4 at four answers of the status query: success, running with no time left,
  failure, and a code the program does not know.\<close>

theorem flow_status_polling_witness:
  "pollFlowStatus (flow_client 0) 20 5 [] = (Ok (), [Call_DescribeFlowStatus 5]) \<and>
   pollFlowStatus (flow_client 1) 0 5 [] =
     (Fail ''sqlserver configDatabaseCT status is running'', [Call_DescribeFlowStatus 5]) \<and>
   pollFlowStatus (flow_client 2) 20 5 [] =
     (Fail ''sqlserver configDatabaseCT status is fail'', [Call_DescribeFlowStatus 5]) \<and>
   pollFlowStatus (flow_client 7) 20 5 [] =
     (Fail ''sqlserver configDatabaseCT status illegal'', [Call_DescribeFlowStatus 5])"
  using flow_status_polling [of "flow_client 0" "[]" 5 0 20]
    flow_status_polling [of "flow_client 1" "[]" 5 1 0]
    flow_status_polling [of "flow_client 2" "[]" 5 2 20]
    flow_status_polling [of "flow_client 7" "[]" 5 7 20]
  by (simp add: flow_client_def offline_def)

section \<open>The identifier codec\<close>



section \<open>Create and delete of the two configuration resources\<close>

text \<open>
  Claim C8. The create of the sqlserver config-database-CT and of the vpc flow-log-config
  stores the identifier and hands over to update with no remote call made yet: create on
  the resource data is update on the resource data with the identifier set, from the same
  log of calls. So whenever that update fails, create returns the same error after the same
  calls, and the resource data it leaves holds the identifier.
\<close>

theorem create_sets_id_then_updates:
  "resourceTencentCloudSqlserverConfigDatabaseCTCreate meta d lg =
     resourceTencentCloudSqlserverConfigDatabaseCTUpdate meta
       (SetId d (SqlserverConfigDatabaseCT_createId d)) lg \<and>
   (\<forall>e d' lg'.
      resourceTencentCloudSqlserverConfigDatabaseCTUpdate meta
          (SetId d (SqlserverConfigDatabaseCT_createId d)) lg = (Fail e, d', lg') \<longrightarrow>
      resourceTencentCloudSqlserverConfigDatabaseCTCreate meta d lg =
          (Fail e, SetId d (SqlserverConfigDatabaseCT_createId d), lg') \<and>
      rd_Id d' = SqlserverConfigDatabaseCT_createId d) \<and>
   resourceTencentCloudVpcFlowLogConfigCreate meta d lg =
     resourceTencentCloudVpcFlowLogConfigUpdate meta
       (SetId d (as_string (Get d ''flow_log_id''))) lg \<and>
   (\<forall>e d' lg'.
      resourceTencentCloudVpcFlowLogConfigUpdate meta
          (SetId d (as_string (Get d ''flow_log_id''))) lg = (Fail e, d', lg') \<longrightarrow>
      resourceTencentCloudVpcFlowLogConfigCreate meta d lg =
          (Fail e, SetId d (as_string (Get d ''flow_log_id'')), lg') \<and>
      rd_Id d' = as_string (Get d ''flow_log_id''))"
  by (auto simp: resourceTencentCloudSqlserverConfigDatabaseCTCreate_def
      resourceTencentCloudVpcFlowLogConfigCreate_def
      dest: SqlserverUpdate_Fail_keeps VpcUpdate_Fail_keeps)

text \<open>Claim C8 with the remote offline: the first remote call of the update fails, and
  create returns that error with the identifier in the resource data.\<close>

theorem create_sets_id_then_updates_witness:
  "resourceTencentCloudSqlserverConfigDatabaseCTCreate offline (sqlserver_example\<lparr>rd_Id := []\<rparr>) [] =
     (Fail ''offline'', sqlserver_example,
      [Call_ModifyDatabaseCT
         \<lparr>mct_ModifyType = Some ''enable'', mct_ChangeRetentionDay = Some 7,
          mct_InstanceId = Some ''mssql-1'', mct_DBNames = [''db1'']\<rparr>]) \<and>
   rd_Id sqlserver_example = ''mssql-1#db1'' \<and>
   resourceTencentCloudVpcFlowLogConfigCreate offline (vpc_example\<lparr>rd_Id := []\<rparr>) [] =
     (Fail ''offline'', vpc_example, [Call_EnableFlowLogs [''fl-1'']]) \<and>
   rd_Id vpc_example = ''fl-1''"
proof -
  have sid: "SetId (sqlserver_example\<lparr>rd_Id := []\<rparr>)
               (SqlserverConfigDatabaseCT_createId (sqlserver_example\<lparr>rd_Id := []\<rparr>)) =
             sqlserver_example"
    by (simp add: SqlserverConfigDatabaseCT_createId_def example_defs eval_defs)
  have su: "resourceTencentCloudSqlserverConfigDatabaseCTUpdate offline sqlserver_example [] =
     (Fail ''offline'', sqlserver_example,
      [Call_ModifyDatabaseCT
         \<lparr>mct_ModifyType = Some ''enable'', mct_ChangeRetentionDay = Some 7,
          mct_InstanceId = Some ''mssql-1'', mct_DBNames = [''db1'']\<rparr>])"
    by (simp add: resourceTencentCloudSqlserverConfigDatabaseCTUpdate_def
        ModifyDatabaseCT_attempt_def Retry_NonRetryable example_defs eval_defs)
  have vid: "SetId (vpc_example\<lparr>rd_Id := []\<rparr>)
               (as_string (Get (vpc_example\<lparr>rd_Id := []\<rparr>) ''flow_log_id'')) = vpc_example"
    by (simp add: example_defs eval_defs)
  have vu: "resourceTencentCloudVpcFlowLogConfigUpdate offline vpc_example [] =
     (Fail ''offline'', vpc_example, [Call_EnableFlowLogs [''fl-1'']])"
    by (simp add: resourceTencentCloudVpcFlowLogConfigUpdate_def
        EnableFlowLogs_attempt_def Retry_NonRetryable example_defs eval_defs)
  have s: "resourceTencentCloudSqlserverConfigDatabaseCTCreate offline (sqlserver_example\<lparr>rd_Id := []\<rparr>) [] =
     resourceTencentCloudSqlserverConfigDatabaseCTUpdate offline sqlserver_example []"
    using create_sets_id_then_updates [of offline "sqlserver_example\<lparr>rd_Id := []\<rparr>" "[]"]
    unfolding sid by blast
  have v: "resourceTencentCloudVpcFlowLogConfigCreate offline (vpc_example\<lparr>rd_Id := []\<rparr>) [] =
     resourceTencentCloudVpcFlowLogConfigUpdate offline vpc_example []"
    using create_sets_id_then_updates [of offline "vpc_example\<lparr>rd_Id := []\<rparr>" "[]"]
    unfolding vid by blast
  show ?thesis
    unfolding s v su vu by (simp add: sqlserver_example_def vpc_example_def)
qed

text \<open>
  Claim C9. The delete of the sqlserver config-database-CT and of the vpc flow-log-config
  returns nil on every resource data and makes no remote call: the resource data and the
  log of calls come back as they were, so nothing the resource configured remotely is
  reverted.
\<close>

theorem delete_leaves_remote_alone:
  "resourceTencentCloudSqlserverConfigDatabaseCTDelete meta d lg = (Ok (), d, lg) \<and>
   resourceTencentCloudVpcFlowLogConfigDelete meta d lg = (Ok (), d, lg)"
  by (simp add: resourceTencentCloudSqlserverConfigDatabaseCTDelete_def
      resourceTencentCloudVpcFlowLogConfigDelete_def)

section \<open>The scf request-status data source\<close>

text \<open>
  Claim C10. After a successful remote answer, the read of the scf request-status data
  source ends without a nil-pointer fault only if every element of the returned list is
  there and has a \<open>FunctionName\<close>. Within one round of the loop, the fault comes from
  \<open>FunctionName\<close> and from no other field: every other field is read under its nil check.
\<close>

theorem scf_read_needs_function_names:
  "(Retry (readRetryTimeout meta)
        (DescribeScfRequestStatusByFilter_attempt meta (paramMap_of d)) lg = (Ok data, lg') \<and>
    fst (dataSourceTencentCloudScfRequestStatusRead meta d lg) \<noteq> Panic \<longrightarrow>
      (\<forall>p \<in> set (case data of None \<Rightarrow> [] | Some xs \<Rightarrow> xs).
          \<exists>requestStatus. p = Some requestStatus \<and> rs_FunctionName requestStatus \<noteq> None)) \<and>
   (requestStatus_round r = None \<longleftrightarrow> rs_FunctionName r = None)"
proof (intro conjI impI)
  assume h: "Retry (readRetryTimeout meta)
        (DescribeScfRequestStatusByFilter_attempt meta (paramMap_of d)) lg = (Ok data, lg') \<and>
    fst (dataSourceTencentCloudScfRequestStatusRead meta d lg) \<noteq> Panic"
  then obtain rounds where
    "each_ptr requestStatus_round (case data of None \<Rightarrow> [] | Some xs \<Rightarrow> xs) = Some rounds"
    by (auto simp: dataSourceTencentCloudScfRequestStatusRead_def split: option.splits)
  from each_ptr_Some_all [OF this]
  show "\<forall>p \<in> set (case data of None \<Rightarrow> [] | Some xs \<Rightarrow> xs).
          \<exists>requestStatus. p = Some requestStatus \<and> rs_FunctionName requestStatus \<noteq> None"
    by (simp add: requestStatus_round_None)
next
  show "requestStatus_round r = None \<longleftrightarrow> rs_FunctionName r = None"
    by (rule requestStatus_round_None)
qed

text \<open>Claim C10 on an answer of one element that has its \<open>FunctionName\<close>: the read ends
  with nil, and the element is as the claim requires; without its \<open>FunctionName\<close> the
  round faults.\<close>

theorem scf_read_needs_function_names_witness:
  "fst (dataSourceTencentCloudScfRequestStatusRead online blank []) = Ok () \<and>
   rs_FunctionName scf_status \<noteq> None \<and>
   requestStatus_round (scf_status\<lparr>rs_FunctionName := None\<rparr>) = None"
proof -
  have r: "Retry (readRetryTimeout online)
             (DescribeScfRequestStatusByFilter_attempt online (paramMap_of blank)) [] =
           (Ok (Some [Some scf_status]), [Call_DescribeScfRequestStatusByFilter []])"
    by (simp add: DescribeScfRequestStatusByFilter_attempt_def paramMap_of_def Retry_Done
        online_def offline_def blank_def GetOk_def Get_def)
  have ok: "fst (dataSourceTencentCloudScfRequestStatusRead online blank []) = Ok ()"
    unfolding dataSourceTencentCloudScfRequestStatusRead_def r
    by (simp add: requestStatus_round_def guarded_def scf_status_def Let_def GetOk_def Get_def
        blank_def SetId_def Set_attr_def)
  have "rs_FunctionName scf_status \<noteq> None \<and>
        requestStatus_round (scf_status\<lparr>rs_FunctionName := None\<rparr>) = None"
    using scf_read_needs_function_names
      [of online blank "[]" "Some [Some scf_status]" "[Call_DescribeScfRequestStatusByFilter []]"
        "scf_status\<lparr>rs_FunctionName := None\<rparr>"] r ok
    by simp
  with ok show ?thesis by simp
qed

section \<open>Malformed identifiers\<close>

text \<open>
  Claim C1, as the code has it. The read, update and delete of the clickhouse account
  permission and the read and update of the sqlserver config-database-CT split the
  identifier at the separator; when the number of components is not the expected one
  (three, respectively two) they return an error that says the identifier is broken, and
  make no remote call and leave the resource data as it was. (The delete of the sqlserver
  resource and of the vpc flow-log-config does nothing at all, and the operations of the
  scrape job do not count the components.)
\<close>

theorem malformed_identifier_rejected:
  "(length (strings_Split (rd_Id d) FILED_SP) \<noteq> 3 \<longrightarrow>
      resourceTencentCloudClickhouseAccountPermissionRead meta d lg =
        (Fail (''tencentcloud_clickhouse_account id is broken, id is '' @ rd_Id d), d, lg) \<and>
      resourceTencentCloudClickhouseAccountPermissionUpdate meta d lg =
        (Fail (''tencentcloud_clickhouse_account id is broken, id is '' @ rd_Id d), d, lg) \<and>
      resourceTencentCloudClickhouseAccountPermissionDelete meta d lg =
        (Fail (''tencentcloud_clickhouse_account id is broken, id is '' @ rd_Id d), d, lg)) \<and>
   (length (strings_Split (rd_Id d) FILED_SP) \<noteq> 2 \<longrightarrow>
      resourceTencentCloudSqlserverConfigDatabaseCTRead meta d lg =
        (Fail (id_is_broken (strings_Split (rd_Id d) FILED_SP)), d, lg) \<and>
      resourceTencentCloudSqlserverConfigDatabaseCTUpdate meta d lg =
        (Fail (id_is_broken (strings_Split (rd_Id d) FILED_SP)), d, lg))"
  by (simp add: resourceTencentCloudClickhouseAccountPermissionRead_def
      resourceTencentCloudClickhouseAccountPermissionUpdate_def
      resourceTencentCloudClickhouseAccountPermissionDelete_def
      resourceTencentCloudSqlserverConfigDatabaseCTRead_def
      resourceTencentCloudSqlserverConfigDatabaseCTUpdate_def Let_def)

text \<open>Claim C1, as the code has it, on an identifier of one component, with the remote
  online: the operations stop at the count all the same.\<close>

theorem malformed_identifier_rejected_witness:
  "resourceTencentCloudClickhouseAccountPermissionRead online (clickhouse_example\<lparr>rd_Id := ''cdwch-1''\<rparr>) [] =
     (Fail ''tencentcloud_clickhouse_account id is broken, id is cdwch-1'',
      clickhouse_example\<lparr>rd_Id := ''cdwch-1''\<rparr>, []) \<and>
   resourceTencentCloudClickhouseAccountPermissionDelete online (clickhouse_example\<lparr>rd_Id := ''cdwch-1''\<rparr>) [] =
     (Fail ''tencentcloud_clickhouse_account id is broken, id is cdwch-1'',
      clickhouse_example\<lparr>rd_Id := ''cdwch-1''\<rparr>, []) \<and>
   resourceTencentCloudSqlserverConfigDatabaseCTUpdate online (sqlserver_example\<lparr>rd_Id := ''mssql-1''\<rparr>) [] =
     (Fail ''id is broken,[mssql-1]'', sqlserver_example\<lparr>rd_Id := ''mssql-1''\<rparr>, [])"
proof -
  have c: "length (strings_Split (rd_Id (clickhouse_example\<lparr>rd_Id := ''cdwch-1''\<rparr>)) FILED_SP) \<noteq> 3"
    by (simp add: strings_Split_def FILED_SP_def)
  have s: "length (strings_Split (rd_Id (sqlserver_example\<lparr>rd_Id := ''mssql-1''\<rparr>)) FILED_SP) \<noteq> 2"
    by (simp add: strings_Split_def FILED_SP_def)
  have m: "id_is_broken (strings_Split (rd_Id (sqlserver_example\<lparr>rd_Id := ''mssql-1''\<rparr>)) FILED_SP) =
           ''id is broken,[mssql-1]''"
    by (simp add: strings_Split_def FILED_SP_def id_is_broken_def)
  show ?thesis
    using malformed_identifier_rejected [of "clickhouse_example\<lparr>rd_Id := ''cdwch-1''\<rparr>" online "[]"]
      malformed_identifier_rejected [of "sqlserver_example\<lparr>rd_Id := ''mssql-1''\<rparr>" online "[]"]
      c s m
    by simp
qed

text \<open>
  Claim C1 as stated fails. The update of the scrape job, on an identifier of four
  components, makes its remote calls and returns nil; its read, on an identifier of one
  component, makes the remote lookup and then faults on \<open>strings.Split(...)[1]\<close>; and the
  delete of the sqlserver resource returns nil on an identifier of one component.
\<close>

theorem scrape_job_skips_identifier_check:
  "length (strings_Split (rd_Id (scrape_example\<lparr>rd_Id := ''job-1#prom-1#agent-1#x''\<rparr>)) FILED_SP) \<noteq> 3 \<and>
   fst (resourceTencentCloudMonitorTmpScrapeJobUpdate online
          (scrape_example\<lparr>rd_Id := ''job-1#prom-1#agent-1#x''\<rparr>) []) = Ok () \<and>
   snd (snd (resourceTencentCloudMonitorTmpScrapeJobUpdate online
          (scrape_example\<lparr>rd_Id := ''job-1#prom-1#agent-1#x''\<rparr>) [])) =
     [Call_UpdatePrometheusScrapeJob
        \<lparr>sj_JobId = Some ''job-1'', sj_InstanceId = Some ''prom-1'',
         sj_AgentId = Some ''agent-1'', sj_Config = None\<rparr>,
      Call_DescribeMonitorTmpScrapeJob ''job-1#prom-1#agent-1#x''] \<and>
   length (strings_Split (rd_Id (scrape_example\<lparr>rd_Id := ''job-1''\<rparr>)) FILED_SP) \<noteq> 3 \<and>
   resourceTencentCloudMonitorTmpScrapeJobRead online (scrape_example\<lparr>rd_Id := ''job-1''\<rparr>) [] =
     (Panic, scrape_example\<lparr>rd_Id := ''job-1''\<rparr>, [Call_DescribeMonitorTmpScrapeJob ''job-1'']) \<and>
   length (strings_Split (rd_Id (sqlserver_example\<lparr>rd_Id := ''mssql-1''\<rparr>)) FILED_SP) \<noteq> 2 \<and>
   resourceTencentCloudSqlserverConfigDatabaseCTDelete online (sqlserver_example\<lparr>rd_Id := ''mssql-1''\<rparr>) [] =
     (Ok (), sqlserver_example\<lparr>rd_Id := ''mssql-1''\<rparr>, [])"
  by (simp add: resourceTencentCloudMonitorTmpScrapeJobUpdate_def
      resourceTencentCloudMonitorTmpScrapeJobRead_def
      resourceTencentCloudSqlserverConfigDatabaseCTDelete_def
      UpdatePrometheusScrapeJob_attempt_def Retry_Done example_defs eval_defs)

section \<open>Reads of a resource that is gone\<close>

text \<open>
  Claim C2, as the code has it. When the remote lookup answers without an error that the
  resource is absent (a nil result for the clickhouse account permission and for the
  sqlserver config-database-CT, an empty list for the vpc flow-log-config), the read clears
  the identifier and returns nil. The read of the scrape job clears the identifier as well,
  but returns the error that the resource does not exist.
\<close>

theorem read_of_absent_resource:
  "(length (strings_Split (rd_Id d) FILED_SP) = 3 \<and>
    DescribeCdwchAccountPermission meta lg (strings_Split (rd_Id d) FILED_SP ! 0)
      (strings_Split (rd_Id d) FILED_SP ! 1) (strings_Split (rd_Id d) FILED_SP ! 2) = Inr None \<longrightarrow>
      resourceTencentCloudClickhouseAccountPermissionRead meta d lg =
        (Ok (), SetId d [],
         lg @ [Call_DescribeCdwchAccountPermission (strings_Split (rd_Id d) FILED_SP ! 0)
                 (strings_Split (rd_Id d) FILED_SP ! 1) (strings_Split (rd_Id d) FILED_SP ! 2)])) \<and>
   (length (strings_Split (rd_Id d) FILED_SP) = 2 \<and>
    DescribeSqlserverConfigDatabaseCTById meta lg (strings_Split (rd_Id d) FILED_SP ! 0) = Inr None \<longrightarrow>
      resourceTencentCloudSqlserverConfigDatabaseCTRead meta d lg =
        (Ok (), SetId d [],
         lg @ [Call_DescribeSqlserverConfigDatabaseCTById (strings_Split (rd_Id d) FILED_SP ! 0)])) \<and>
   (DescribeFlowLogs meta lg (rd_Id d) = Inr [] \<longrightarrow>
      resourceTencentCloudVpcFlowLogConfigRead meta d lg =
        (Ok (), SetId d [], lg @ [Call_DescribeFlowLogs (rd_Id d)])) \<and>
   (DescribeMonitorTmpScrapeJob meta lg (rd_Id d) = Inr None \<longrightarrow>
      resourceTencentCloudMonitorTmpScrapeJobRead meta d lg =
        (Fail (''resource `tmpScrapeJob` '' @ rd_Id d @ '' does not exist''), SetId d [],
         lg @ [Call_DescribeMonitorTmpScrapeJob (rd_Id d)]))"
  by (simp add: resourceTencentCloudClickhouseAccountPermissionRead_def
      resourceTencentCloudSqlserverConfigDatabaseCTRead_def
      resourceTencentCloudVpcFlowLogConfigRead_def
      resourceTencentCloudMonitorTmpScrapeJobRead_def Let_def)

text \<open>Claim C2, as the code has it, on the four example resources, the remote answering
  every lookup with "absent".\<close>

theorem read_of_absent_resource_witness:
  "resourceTencentCloudClickhouseAccountPermissionRead vanished clickhouse_example [] =
     (Ok (), SetId clickhouse_example [],
      [Call_DescribeCdwchAccountPermission ''cdwch-1'' ''default_cluster'' ''user1'']) \<and>
   resourceTencentCloudSqlserverConfigDatabaseCTRead vanished sqlserver_example [] =
     (Ok (), SetId sqlserver_example [], [Call_DescribeSqlserverConfigDatabaseCTById ''mssql-1'']) \<and>
   resourceTencentCloudVpcFlowLogConfigRead vanished vpc_example [] =
     (Ok (), SetId vpc_example [], [Call_DescribeFlowLogs ''fl-1'']) \<and>
   resourceTencentCloudMonitorTmpScrapeJobRead vanished scrape_example [] =
     (Fail ''resource `tmpScrapeJob` job-1#prom-1#agent-1 does not exist'', SetId scrape_example [],
      [Call_DescribeMonitorTmpScrapeJob ''job-1#prom-1#agent-1''])"
proof -
  have c: "DescribeCdwchAccountPermission vanished lg a b c = Inr None"
    and s: "DescribeSqlserverConfigDatabaseCTById vanished lg a = Inr None"
    and v: "DescribeFlowLogs vanished lg a = Inr []"
    and j: "DescribeMonitorTmpScrapeJob vanished lg a = Inr None" for lg a b c
    by (simp_all add: vanished_def)
  have ids: "rd_Id vpc_example = ''fl-1''" "rd_Id scrape_example = ''job-1#prom-1#agent-1''"
    by (simp_all add: vpc_example_def scrape_example_def)
  show ?thesis
    using read_of_absent_resource [of clickhouse_example vanished "[]"]
      read_of_absent_resource [of sqlserver_example vanished "[]"]
      read_of_absent_resource [of vpc_example vanished "[]"]
      read_of_absent_resource [of scrape_example vanished "[]"]
    by (simp add: c s v j ids clickhouse_example_split sqlserver_example_split scrape_example_split)
qed

text \<open>Claim C2 as stated fails on the read of the scrape job: the lookup answers nil
  without an error, and the read returns an error.\<close>

theorem scrape_job_read_absent_is_error:
  "DescribeMonitorTmpScrapeJob vanished [] (rd_Id scrape_example) = Inr None \<and>
   resourceTencentCloudMonitorTmpScrapeJobRead vanished scrape_example [] =
     (Fail ''resource `tmpScrapeJob` job-1#prom-1#agent-1 does not exist'',
      scrape_example\<lparr>rd_Id := []\<rparr>, [Call_DescribeMonitorTmpScrapeJob ''job-1#prom-1#agent-1''])"
  by (simp add: resourceTencentCloudMonitorTmpScrapeJobRead_def example_defs eval_defs)

section \<open>Immutable arguments\<close>

text \<open>
  Claim C3, as the code has it. The update of the clickhouse account permission returns an
  error, makes no remote call and leaves the resource data as it was whenever
  \<open>instance_id\<close>, \<open>cluster\<close> or \<open>user_name\<close> has changed; when the identifier has its three
  components the error names the first changed argument in that order (otherwise it is the
  error of the broken identifier). The update of the scrape job, on an identifier of at
  least three components, returns the error naming \<open>instance_id\<close> when that has changed,
  else the one naming \<open>agent_id\<close> when that has changed, again with no remote call.
\<close>

theorem immutable_change_rejected:
  "(HasChange d ''instance_id'' \<or> HasChange d ''cluster'' \<or> HasChange d ''user_name'' \<longrightarrow>
      (\<exists>e. resourceTencentCloudClickhouseAccountPermissionUpdate meta d lg = (Fail e, d, lg))) \<and>
   (length (strings_Split (rd_Id d) FILED_SP) = 3 \<and> HasChange d ''instance_id'' \<longrightarrow>
      resourceTencentCloudClickhouseAccountPermissionUpdate meta d lg =
        (Fail ''argument `instance_id` cannot be changed'', d, lg)) \<and>
   (length (strings_Split (rd_Id d) FILED_SP) = 3 \<and> \<not> HasChange d ''instance_id'' \<and>
    HasChange d ''cluster'' \<longrightarrow>
      resourceTencentCloudClickhouseAccountPermissionUpdate meta d lg =
        (Fail ''argument `cluster` cannot be changed'', d, lg)) \<and>
   (length (strings_Split (rd_Id d) FILED_SP) = 3 \<and> \<not> HasChange d ''instance_id'' \<and>
    \<not> HasChange d ''cluster'' \<and> HasChange d ''user_name'' \<longrightarrow>
      resourceTencentCloudClickhouseAccountPermissionUpdate meta d lg =
        (Fail ''argument `user_name` cannot be changed'', d, lg)) \<and>
   (3 \<le> length (strings_Split (rd_Id d) FILED_SP) \<and> HasChange d ''instance_id'' \<longrightarrow>
      resourceTencentCloudMonitorTmpScrapeJobUpdate meta d lg =
        (Fail ''`instance_id` do not support change now.'', d, lg)) \<and>
   (3 \<le> length (strings_Split (rd_Id d) FILED_SP) \<and> \<not> HasChange d ''instance_id'' \<and>
    HasChange d ''agent_id'' \<longrightarrow>
      resourceTencentCloudMonitorTmpScrapeJobUpdate meta d lg =
        (Fail ''`agent_id` do not support change now.'', d, lg))"
  by (auto simp: resourceTencentCloudClickhouseAccountPermissionUpdate_def
      resourceTencentCloudMonitorTmpScrapeJobUpdate_def Let_def)

text \<open>Claim C3, as the code has it, on the clickhouse and scrape-job examples with one
  planned value changed at a time.\<close>

theorem immutable_change_rejected_witness:
  "resourceTencentCloudClickhouseAccountPermissionUpdate online
       (replan clickhouse_example ''instance_id'' (VString ''cdwch-2'')) [] =
     (Fail ''argument `instance_id` cannot be changed'',
      replan clickhouse_example ''instance_id'' (VString ''cdwch-2''), []) \<and>
   resourceTencentCloudClickhouseAccountPermissionUpdate online
       (replan clickhouse_example ''cluster'' (VString ''other_cluster'')) [] =
     (Fail ''argument `cluster` cannot be changed'',
      replan clickhouse_example ''cluster'' (VString ''other_cluster''), []) \<and>
   resourceTencentCloudClickhouseAccountPermissionUpdate online
       (replan clickhouse_example ''user_name'' (VString ''user2'')) [] =
     (Fail ''argument `user_name` cannot be changed'',
      replan clickhouse_example ''user_name'' (VString ''user2''), []) \<and>
   resourceTencentCloudMonitorTmpScrapeJobUpdate online
       (replan scrape_example ''instance_id'' (VString ''prom-2'')) [] =
     (Fail ''`instance_id` do not support change now.'',
      replan scrape_example ''instance_id'' (VString ''prom-2''), []) \<and>
   resourceTencentCloudMonitorTmpScrapeJobUpdate online
       (replan scrape_example ''agent_id'' (VString ''agent-2'')) [] =
     (Fail ''`agent_id` do not support change now.'',
      replan scrape_example ''agent_id'' (VString ''agent-2''), [])"
proof -
  have c1: "HasChange (replan clickhouse_example ''instance_id'' (VString ''cdwch-2'')) ''instance_id''"
    and c2: "\<not> HasChange (replan clickhouse_example ''cluster'' (VString ''other_cluster'')) ''instance_id''"
      "HasChange (replan clickhouse_example ''cluster'' (VString ''other_cluster'')) ''cluster''"
    and c3: "\<not> HasChange (replan clickhouse_example ''user_name'' (VString ''user2'')) ''instance_id''"
      "\<not> HasChange (replan clickhouse_example ''user_name'' (VString ''user2'')) ''cluster''"
      "HasChange (replan clickhouse_example ''user_name'' (VString ''user2'')) ''user_name''"
    and j1: "HasChange (replan scrape_example ''instance_id'' (VString ''prom-2'')) ''instance_id''"
    and j2: "\<not> HasChange (replan scrape_example ''agent_id'' (VString ''agent-2'')) ''instance_id''"
      "HasChange (replan scrape_example ''agent_id'' (VString ''agent-2'')) ''agent_id''"
    by (simp_all add: HasChange_def nonzero_def replan_def clickhouse_example_def scrape_example_def)
  show ?thesis
    using immutable_change_rejected
        [of "replan clickhouse_example ''instance_id'' (VString ''cdwch-2'')" online "[]"]
      immutable_change_rejected
        [of "replan clickhouse_example ''cluster'' (VString ''other_cluster'')" online "[]"]
      immutable_change_rejected
        [of "replan clickhouse_example ''user_name'' (VString ''user2'')" online "[]"]
      immutable_change_rejected
        [of "replan scrape_example ''instance_id'' (VString ''prom-2'')" online "[]"]
      immutable_change_rejected
        [of "replan scrape_example ''agent_id'' (VString ''agent-2'')" online "[]"]
    by (simp add: c1 c2 c3 j1 j2 clickhouse_example_split scrape_example_split)
qed

text \<open>
  Claim C3 as stated fails when the identifier is malformed: with \<open>instance_id\<close> changed,
  the clickhouse update returns the error of the broken identifier, which names no
  argument, and the scrape-job update faults on \<open>&ids[1]\<close> before it looks at any
  argument.
\<close>

theorem immutable_change_malformed_identifier:
  "HasChange (replan (clickhouse_example\<lparr>rd_Id := ''cdwch-1''\<rparr>) ''instance_id'' (VString ''cdwch-2''))
     ''instance_id'' \<and>
   resourceTencentCloudClickhouseAccountPermissionUpdate online
     (replan (clickhouse_example\<lparr>rd_Id := ''cdwch-1''\<rparr>) ''instance_id'' (VString ''cdwch-2'')) [] =
     (Fail ''tencentcloud_clickhouse_account id is broken, id is cdwch-1'',
      replan (clickhouse_example\<lparr>rd_Id := ''cdwch-1''\<rparr>) ''instance_id'' (VString ''cdwch-2''), []) \<and>
   HasChange (replan (scrape_example\<lparr>rd_Id := ''job-1''\<rparr>) ''instance_id'' (VString ''prom-2''))
     ''instance_id'' \<and>
   resourceTencentCloudMonitorTmpScrapeJobUpdate online
     (replan (scrape_example\<lparr>rd_Id := ''job-1''\<rparr>) ''instance_id'' (VString ''prom-2'')) [] =
     (Panic, replan (scrape_example\<lparr>rd_Id := ''job-1''\<rparr>) ''instance_id'' (VString ''prom-2''), [])"
  by (simp add: resourceTencentCloudClickhouseAccountPermissionUpdate_def
      resourceTencentCloudMonitorTmpScrapeJobUpdate_def example_defs eval_defs)

section \<open>What a read writes\<close>

text \<open>
  Claim C6, as the code has it. In the read of the clickhouse account permission each of
  \<open>instance_id\<close>, \<open>cluster\<close>, \<open>user_name\<close>, \<open>all_database\<close> and \<open>global_privileges\<close> takes the
  value of the response field when that is not nil and keeps its value otherwise, and
  \<open>database_privilege_list\<close> keeps its value when the response has none; the same holds for
  \<open>enable\<close> in the vpc flow-log-config read and for \<open>agent_id\<close> and \<open>config\<close> in the
  scrape-job read. The read of the sqlserver config-database-CT has no such guard. When
  the lookup answers a nil list, it clears the identifier and writes nothing. When the
  lookup answers a list and the loop over it ends without a fault, it writes its four
  fields: \<open>instance_id\<close> from the identifier, and \<open>db_name\<close>, \<open>modify_type\<close> and
  \<open>change_retention_day\<close> from the first entry that has the database's name, or, when no
  entry has it, the empty string, the empty string and 0. A read that returns nil has done
  the one or the other.
\<close>

theorem read_writes_fields:
  "(length (strings_Split (rd_Id d) FILED_SP) = 3 \<and>
    DescribeCdwchAccountPermission meta lg (strings_Split (rd_Id d) FILED_SP ! 0)
      (strings_Split (rd_Id d) FILED_SP ! 1) (strings_Split (rd_Id d) FILED_SP ! 2) = Inr (Some ap) \<longrightarrow>
      (let d' = fst (snd (resourceTencentCloudClickhouseAccountPermissionRead meta d lg)) in
         Get d' ''instance_id'' =
           (case ap_InstanceId ap of None \<Rightarrow> Get d ''instance_id'' | Some v \<Rightarrow> Some (VString v)) \<and>
         Get d' ''cluster'' =
           (case ap_Cluster ap of None \<Rightarrow> Get d ''cluster'' | Some v \<Rightarrow> Some (VString v)) \<and>
         Get d' ''user_name'' =
           (case ap_UserName ap of None \<Rightarrow> Get d ''user_name'' | Some v \<Rightarrow> Some (VString v)) \<and>
         Get d' ''all_database'' =
           (case ap_AllDatabase ap of None \<Rightarrow> Get d ''all_database'' | Some v \<Rightarrow> Some (VBool v)) \<and>
         Get d' ''global_privileges'' =
           (case ap_GlobalPrivileges ap of
              None \<Rightarrow> Get d ''global_privileges'' | Some v \<Rightarrow> Some (VSet v)) \<and>
         (ap_DatabasePrivilegeList ap = None \<longrightarrow>
            Get d' ''database_privilege_list'' = Get d ''database_privilege_list''))) \<and>
   (DescribeFlowLogs meta lg (rd_Id d) = Inr (Some flowLogConfig # rest) \<longrightarrow>
      Get (fst (snd (resourceTencentCloudVpcFlowLogConfigRead meta d lg))) ''enable'' =
        (case fl_Enable flowLogConfig of None \<Rightarrow> Get d ''enable'' | Some v \<Rightarrow> Some (VBool v))) \<and>
   (2 \<le> length (strings_Split (rd_Id d) FILED_SP) \<and>
    DescribeMonitorTmpScrapeJob meta lg (rd_Id d) = Inr (Some tmpScrapeJob) \<longrightarrow>
      (let d' = fst (snd (resourceTencentCloudMonitorTmpScrapeJobRead meta d lg)) in
         Get d' ''agent_id'' =
           (case psj_AgentId tmpScrapeJob of None \<Rightarrow> Get d ''agent_id'' | Some v \<Rightarrow> Some (VString v)) \<and>
         Get d' ''config'' =
           (case psj_Config tmpScrapeJob of None \<Rightarrow> Get d ''config'' | Some v \<Rightarrow> Some (VString v)))) \<and>
   (length (strings_Split (rd_Id d) FILED_SP) = 2 \<and>
    DescribeSqlserverConfigDatabaseCTById meta lg (strings_Split (rd_Id d) FILED_SP ! 0) = Inr (Some dbs) \<and>
    (\<forall>p \<in> set dbs. \<exists>i n. p = Some i \<and> dnd_Name i = Some n \<and>
        n \<noteq> strings_Split (rd_Id d) FILED_SP ! 1) \<longrightarrow>
      fst (resourceTencentCloudSqlserverConfigDatabaseCTRead meta d lg) = Ok () \<and>
      (let d' = fst (snd (resourceTencentCloudSqlserverConfigDatabaseCTRead meta d lg)) in
         Get d' ''instance_id'' = Some (VString (strings_Split (rd_Id d) FILED_SP ! 0)) \<and>
         Get d' ''db_name'' = Some (VString []) \<and>
         Get d' ''modify_type'' = Some (VString []) \<and>
         Get d' ''change_retention_day'' = Some (VInt 0))) \<and>
   (length (strings_Split (rd_Id d) FILED_SP) = 2 \<and>
    DescribeSqlserverConfigDatabaseCTById meta lg (strings_Split (rd_Id d) FILED_SP ! 0) = Inr (Some dbs) \<and>
    findDatabaseCT dbs (strings_Split (rd_Id d) FILED_SP ! 1) = Some (Name, modifyType, retentionPeriod) \<longrightarrow>
      resourceTencentCloudSqlserverConfigDatabaseCTRead meta d lg =
        (Ok (),
         Set_attr (Set_attr (Set_attr (Set_attr d
                ''instance_id'' (VString (strings_Split (rd_Id d) FILED_SP ! 0)))
                ''db_name'' (VString Name))
                ''modify_type'' (VString modifyType))
                ''change_retention_day'' (VInt (Atoi_value retentionPeriod)),
         lg @ [Call_DescribeSqlserverConfigDatabaseCTById (strings_Split (rd_Id d) FILED_SP ! 0)])) \<and>
   ((\<forall>p \<in> set before. \<exists>i n. p = Some i \<and> dnd_Name i = Some n \<and> n \<noteq> dbName) \<and>
    dnd_Name entry = Some dbName \<and> dnd_IsDbChainingOn entry = Some chaining \<and>
    dnd_RetentionPeriod entry = Some period \<longrightarrow>
      findDatabaseCT (before @ Some entry # after) dbName =
        Some (dbName, if chaining = ''0'' then ''disable'' else ''enable'', period)) \<and>
   ((\<forall>p \<in> set dbs. \<exists>i n. p = Some i \<and> dnd_Name i = Some n \<and> n \<noteq> dbName) \<longrightarrow>
      findDatabaseCT dbs dbName = Some ([], [], [])) \<and>
   (length (strings_Split (rd_Id d) FILED_SP) = 2 \<and>
    DescribeSqlserverConfigDatabaseCTById meta lg (strings_Split (rd_Id d) FILED_SP ! 0) = Inr None \<longrightarrow>
      fst (resourceTencentCloudSqlserverConfigDatabaseCTRead meta d lg) = Ok () \<and>
      Get (fst (snd (resourceTencentCloudSqlserverConfigDatabaseCTRead meta d lg))) k = Get d k) \<and>
   (resourceTencentCloudSqlserverConfigDatabaseCTRead meta d lg = (Ok (), d', lg') \<longrightarrow>
      (DescribeSqlserverConfigDatabaseCTById meta lg (strings_Split (rd_Id d) FILED_SP ! 0) = Inr None \<and>
       d' = SetId d []) \<or>
      (\<exists>dbs Name modifyType retentionPeriod.
         DescribeSqlserverConfigDatabaseCTById meta lg (strings_Split (rd_Id d) FILED_SP ! 0) = Inr (Some dbs) \<and>
         findDatabaseCT dbs (strings_Split (rd_Id d) FILED_SP ! 1) = Some (Name, modifyType, retentionPeriod) \<and>
         d' = Set_attr (Set_attr (Set_attr (Set_attr d
                ''instance_id'' (VString (strings_Split (rd_Id d) FILED_SP ! 0)))
                ''db_name'' (VString Name))
                ''modify_type'' (VString modifyType))
                ''change_retention_day'' (VInt (Atoi_value retentionPeriod))))"
proof (intro conjI impI)
  assume "length (strings_Split (rd_Id d) FILED_SP) = 3 \<and>
    DescribeCdwchAccountPermission meta lg (strings_Split (rd_Id d) FILED_SP ! 0)
      (strings_Split (rd_Id d) FILED_SP ! 1) (strings_Split (rd_Id d) FILED_SP ! 2) = Inr (Some ap)"
  then show "let d' = fst (snd (resourceTencentCloudClickhouseAccountPermissionRead meta d lg)) in
         Get d' ''instance_id'' =
           (case ap_InstanceId ap of None \<Rightarrow> Get d ''instance_id'' | Some v \<Rightarrow> Some (VString v)) \<and>
         Get d' ''cluster'' =
           (case ap_Cluster ap of None \<Rightarrow> Get d ''cluster'' | Some v \<Rightarrow> Some (VString v)) \<and>
         Get d' ''user_name'' =
           (case ap_UserName ap of None \<Rightarrow> Get d ''user_name'' | Some v \<Rightarrow> Some (VString v)) \<and>
         Get d' ''all_database'' =
           (case ap_AllDatabase ap of None \<Rightarrow> Get d ''all_database'' | Some v \<Rightarrow> Some (VBool v)) \<and>
         Get d' ''global_privileges'' =
           (case ap_GlobalPrivileges ap of
              None \<Rightarrow> Get d ''global_privileges'' | Some v \<Rightarrow> Some (VSet v)) \<and>
         (ap_DatabasePrivilegeList ap = None \<longrightarrow>
            Get d' ''database_privilege_list'' = Get d ''database_privilege_list'')"
    by (simp add: resourceTencentCloudClickhouseAccountPermissionRead_def Let_def
        split: option.splits)
next
  assume "DescribeFlowLogs meta lg (rd_Id d) = Inr (Some flowLogConfig # rest)"
  then show "Get (fst (snd (resourceTencentCloudVpcFlowLogConfigRead meta d lg))) ''enable'' =
        (case fl_Enable flowLogConfig of None \<Rightarrow> Get d ''enable'' | Some v \<Rightarrow> Some (VBool v))"
    by (simp add: resourceTencentCloudVpcFlowLogConfigRead_def Let_def split: option.splits)
next
  assume "2 \<le> length (strings_Split (rd_Id d) FILED_SP) \<and>
    DescribeMonitorTmpScrapeJob meta lg (rd_Id d) = Inr (Some tmpScrapeJob)"
  then show "let d' = fst (snd (resourceTencentCloudMonitorTmpScrapeJobRead meta d lg)) in
         Get d' ''agent_id'' =
           (case psj_AgentId tmpScrapeJob of None \<Rightarrow> Get d ''agent_id'' | Some v \<Rightarrow> Some (VString v)) \<and>
         Get d' ''config'' =
           (case psj_Config tmpScrapeJob of None \<Rightarrow> Get d ''config'' | Some v \<Rightarrow> Some (VString v))"
    by (simp add: resourceTencentCloudMonitorTmpScrapeJobRead_def Let_def split: option.splits)
next
  assume h: "length (strings_Split (rd_Id d) FILED_SP) = 2 \<and>
    DescribeSqlserverConfigDatabaseCTById meta lg (strings_Split (rd_Id d) FILED_SP ! 0) = Inr (Some dbs) \<and>
    (\<forall>p \<in> set dbs. \<exists>i n. p = Some i \<and> dnd_Name i = Some n \<and>
        n \<noteq> strings_Split (rd_Id d) FILED_SP ! 1)"
  then have nf: "findDatabaseCT dbs (strings_Split (rd_Id d) FILED_SP ! 1) = Some ([], [], [])"
    by (intro findDatabaseCT_no_match) simp
  show "fst (resourceTencentCloudSqlserverConfigDatabaseCTRead meta d lg) = Ok ()"
    using h nf by (simp add: resourceTencentCloudSqlserverConfigDatabaseCTRead_def Let_def)
  show "let d' = fst (snd (resourceTencentCloudSqlserverConfigDatabaseCTRead meta d lg)) in
         Get d' ''instance_id'' = Some (VString (strings_Split (rd_Id d) FILED_SP ! 0)) \<and>
         Get d' ''db_name'' = Some (VString []) \<and>
         Get d' ''modify_type'' = Some (VString []) \<and>
         Get d' ''change_retention_day'' = Some (VInt 0)"
    using h nf
    by (simp add: resourceTencentCloudSqlserverConfigDatabaseCTRead_def Let_def Atoi_value_empty)
next
  assume "length (strings_Split (rd_Id d) FILED_SP) = 2 \<and>
    DescribeSqlserverConfigDatabaseCTById meta lg (strings_Split (rd_Id d) FILED_SP ! 0) = Inr (Some dbs) \<and>
    findDatabaseCT dbs (strings_Split (rd_Id d) FILED_SP ! 1) = Some (Name, modifyType, retentionPeriod)"
  then show "resourceTencentCloudSqlserverConfigDatabaseCTRead meta d lg =
        (Ok (),
         Set_attr (Set_attr (Set_attr (Set_attr d
                ''instance_id'' (VString (strings_Split (rd_Id d) FILED_SP ! 0)))
                ''db_name'' (VString Name))
                ''modify_type'' (VString modifyType))
                ''change_retention_day'' (VInt (Atoi_value retentionPeriod)),
         lg @ [Call_DescribeSqlserverConfigDatabaseCTById (strings_Split (rd_Id d) FILED_SP ! 0)])"
    using SqlserverRead_found [of d meta lg dbs Name modifyType retentionPeriod] by blast
next
  assume "(\<forall>p \<in> set before. \<exists>i n. p = Some i \<and> dnd_Name i = Some n \<and> n \<noteq> dbName) \<and>
    dnd_Name entry = Some dbName \<and> dnd_IsDbChainingOn entry = Some chaining \<and>
    dnd_RetentionPeriod entry = Some period"
  then show "findDatabaseCT (before @ Some entry # after) dbName =
        Some (dbName, if chaining = ''0'' then ''disable'' else ''enable'', period)"
    using findDatabaseCT_match [of before dbName entry chaining period after] by blast
next
  assume "(\<forall>p \<in> set dbs. \<exists>i n. p = Some i \<and> dnd_Name i = Some n \<and> n \<noteq> dbName)"
  then show "findDatabaseCT dbs dbName = Some ([], [], [])"
    by (rule findDatabaseCT_no_match)
next
  assume h: "length (strings_Split (rd_Id d) FILED_SP) = 2 \<and>
    DescribeSqlserverConfigDatabaseCTById meta lg (strings_Split (rd_Id d) FILED_SP ! 0) = Inr None"
  then show "fst (resourceTencentCloudSqlserverConfigDatabaseCTRead meta d lg) = Ok ()"
    by (simp add: resourceTencentCloudSqlserverConfigDatabaseCTRead_def Let_def)
  from h show "Get (fst (snd (resourceTencentCloudSqlserverConfigDatabaseCTRead meta d lg))) k = Get d k"
    by (simp add: resourceTencentCloudSqlserverConfigDatabaseCTRead_def Let_def)
next
  assume "resourceTencentCloudSqlserverConfigDatabaseCTRead meta d lg = (Ok (), d', lg')"
  then show "(DescribeSqlserverConfigDatabaseCTById meta lg (strings_Split (rd_Id d) FILED_SP ! 0) = Inr None \<and>
       d' = SetId d []) \<or>
      (\<exists>dbs Name modifyType retentionPeriod.
         DescribeSqlserverConfigDatabaseCTById meta lg (strings_Split (rd_Id d) FILED_SP ! 0) = Inr (Some dbs) \<and>
         findDatabaseCT dbs (strings_Split (rd_Id d) FILED_SP ! 1) = Some (Name, modifyType, retentionPeriod) \<and>
         d' = Set_attr (Set_attr (Set_attr (Set_attr d
                ''instance_id'' (VString (strings_Split (rd_Id d) FILED_SP ! 0)))
                ''db_name'' (VString Name))
                ''modify_type'' (VString modifyType))
                ''change_retention_day'' (VInt (Atoi_value retentionPeriod)))"
    by (rule SqlserverRead_Ok_written)
qed

text \<open>Claim C6, as the code has it, on the four example resources: fields whose response
  field is nil keep their values; the sqlserver read writes the zero values when it finds
  only another database, the values of the entry when it finds the database, and nothing
  when the list is nil.\<close>

theorem read_writes_fields_witness:
  "Get (fst (snd (resourceTencentCloudClickhouseAccountPermissionRead online clickhouse_example [])))
     ''cluster'' = Some (VString ''default_cluster'') \<and>
   Get (fst (snd (resourceTencentCloudClickhouseAccountPermissionRead online clickhouse_example [])))
     ''all_database'' = Some (VBool False) \<and>
   Get (fst (snd (resourceTencentCloudClickhouseAccountPermissionRead online clickhouse_example [])))
     ''global_privileges'' = None \<and>
   Get (fst (snd (resourceTencentCloudVpcFlowLogConfigRead online vpc_example []))) ''enable'' =
     Some (VBool True) \<and>
   Get (fst (snd (resourceTencentCloudMonitorTmpScrapeJobRead online scrape_example []))) ''config'' =
     None \<and>
   Get (fst (snd (resourceTencentCloudSqlserverConfigDatabaseCTRead online sqlserver_example [])))
     ''db_name'' = Some (VString []) \<and>
   Get (fst (snd (resourceTencentCloudSqlserverConfigDatabaseCTRead online sqlserver_example [])))
     ''change_retention_day'' = Some (VInt 0) \<and>
   Get (fst (snd (resourceTencentCloudSqlserverConfigDatabaseCTRead online
                    (sqlserver_example\<lparr>rd_Id := ''mssql-1#db2''\<rparr>) [])))
     ''db_name'' = Some (VString ''db2'') \<and>
   Get (fst (snd (resourceTencentCloudSqlserverConfigDatabaseCTRead online
                    (sqlserver_example\<lparr>rd_Id := ''mssql-1#db2''\<rparr>) [])))
     ''modify_type'' = Some (VString ''enable'') \<and>
   Get (fst (snd (resourceTencentCloudSqlserverConfigDatabaseCTRead online
                    (sqlserver_example\<lparr>rd_Id := ''mssql-1#db2''\<rparr>) [])))
     ''change_retention_day'' = Some (VInt 5) \<and>
   Get (fst (snd (resourceTencentCloudSqlserverConfigDatabaseCTRead vanished sqlserver_example [])))
     ''db_name'' = Some (VString ''db1'')"
proof -
  let ?ap = "\<lparr>ap_InstanceId = Some ''cdwch-1'', ap_Cluster = None, ap_UserName = Some ''user1'',
              ap_AllDatabase = Some False, ap_GlobalPrivileges = None,
              ap_DatabasePrivilegeList = None\<rparr>"
  let ?job = "\<lparr>psj_AgentId = Some ''agent-1'', psj_Config = None\<rparr>"
  let ?db = "\<lparr>dnd_Name = Some ''db2'', dnd_IsDbChainingOn = Some ''1'',
              dnd_RetentionPeriod = Some ''5''\<rparr>"
  let ?d2 = "sqlserver_example\<lparr>rd_Id := ''mssql-1#db2''\<rparr>"
  have d2: "strings_Split ''mssql-1#db2'' FILED_SP = [''mssql-1'', ''db2'']"
    by (simp add: strings_Split_def FILED_SP_def)
  have c: "DescribeCdwchAccountPermission online [] ''cdwch-1'' ''default_cluster'' ''user1'' =
             Inr (Some ?ap)"
    and v: "DescribeFlowLogs online [] (rd_Id vpc_example) = Inr [Some \<lparr>fl_Enable = None\<rparr>]"
    and j: "DescribeMonitorTmpScrapeJob online [] (rd_Id scrape_example) = Inr (Some ?job)"
    and s: "DescribeSqlserverConfigDatabaseCTById online [] ''mssql-1'' = Inr (Some [Some ?db])"
    and n: "DescribeSqlserverConfigDatabaseCTById vanished [] ''mssql-1'' = Inr None"
    by (simp_all add: online_def vanished_def)
  have g: "Get clickhouse_example ''cluster'' = Some (VString ''default_cluster'')"
    "Get clickhouse_example ''global_privileges'' = None"
    "Get vpc_example ''enable'' = Some (VBool True)"
    "Get scrape_example ''config'' = None"
    "Get sqlserver_example ''db_name'' = Some (VString ''db1'')"
    by (simp_all add: Get_def clickhouse_example_def vpc_example_def scrape_example_def
        sqlserver_example_def)
  have five: "Atoi_value ''5'' = 5"
    by (simp add: Atoi_value_def is_digit_def decimal_def)
  note ck = read_writes_fields [where d = clickhouse_example and meta = online and lg = "[]"
      and ap = ?ap, THEN conjunct1]
  note vp = read_writes_fields [where d = vpc_example and meta = online and lg = "[]"
      and flowLogConfig = "\<lparr>fl_Enable = None\<rparr>" and rest = "[]",
      THEN conjunct2, THEN conjunct1]
  note sj = read_writes_fields [where d = scrape_example and meta = online and lg = "[]"
      and tmpScrapeJob = ?job, THEN conjunct2, THEN conjunct2, THEN conjunct1]
  note nomatch = read_writes_fields [where d = sqlserver_example and meta = online and lg = "[]"
      and dbs = "[Some ?db]", THEN conjunct2, THEN conjunct2, THEN conjunct2, THEN conjunct1]
  note rest = read_writes_fields [where d = ?d2 and meta = online and lg = "[]"
      and dbs = "[Some ?db]" and Name = "''db2''" and modifyType = "''enable''"
      and retentionPeriod = "''5''" and before = "[]" and entry = ?db and after = "[]"
      and dbName = "''db2''" and chaining = "''1''" and period = "''5''",
      THEN conjunct2, THEN conjunct2, THEN conjunct2, THEN conjunct2]
  note found = rest [THEN conjunct1]
  note match = rest [THEN conjunct2, THEN conjunct1]
  note absent = read_writes_fields [where d = sqlserver_example and meta = vanished and lg = "[]"
      and k = "''db_name''",
      THEN conjunct2, THEN conjunct2, THEN conjunct2, THEN conjunct2, THEN conjunct2,
      THEN conjunct2, THEN conjunct2, THEN conjunct1]
  have 1: "Get (fst (snd (resourceTencentCloudClickhouseAccountPermissionRead online clickhouse_example [])))
       ''cluster'' = Some (VString ''default_cluster'') \<and>
     Get (fst (snd (resourceTencentCloudClickhouseAccountPermissionRead online clickhouse_example [])))
       ''all_database'' = Some (VBool False) \<and>
     Get (fst (snd (resourceTencentCloudClickhouseAccountPermissionRead online clickhouse_example [])))
       ''global_privileges'' = None"
    using ck by (simp add: c g clickhouse_example_split Let_def)
  have 2: "Get (fst (snd (resourceTencentCloudVpcFlowLogConfigRead online vpc_example []))) ''enable'' =
     Some (VBool True)"
    using vp by (simp add: v g)
  have 3: "Get (fst (snd (resourceTencentCloudMonitorTmpScrapeJobRead online scrape_example []))) ''config'' =
     None"
    using sj by (simp add: j g scrape_example_split Let_def)
  have 4: "Get (fst (snd (resourceTencentCloudSqlserverConfigDatabaseCTRead online sqlserver_example [])))
       ''db_name'' = Some (VString []) \<and>
     Get (fst (snd (resourceTencentCloudSqlserverConfigDatabaseCTRead online sqlserver_example [])))
       ''change_retention_day'' = Some (VInt 0)"
    using nomatch by (simp add: s sqlserver_example_split Let_def)
  have m: "findDatabaseCT [Some ?db] ''db2'' = Some (''db2'', ''enable'', ''5'')"
    using match by simp
  have 5: "resourceTencentCloudSqlserverConfigDatabaseCTRead online ?d2 [] =
      (Ok (),
       Set_attr (Set_attr (Set_attr (Set_attr ?d2 ''instance_id'' (VString ''mssql-1''))
         ''db_name'' (VString ''db2'')) ''modify_type'' (VString ''enable''))
         ''change_retention_day'' (VInt 5),
       [Call_DescribeSqlserverConfigDatabaseCTById ''mssql-1''])"
    using found by (simp add: d2 s m five)
  have 6: "Get (fst (snd (resourceTencentCloudSqlserverConfigDatabaseCTRead vanished sqlserver_example [])))
     ''db_name'' = Some (VString ''db1'')"
    using absent by (simp add: n g sqlserver_example_split)
  show ?thesis
    using 1 2 3 4 6 by (simp add: 5)
qed

text \<open>Claim C6 as stated fails on the sqlserver read: the answer holds no entry for the
  database, and the three fields, which had values, are overwritten with zero values.\<close>

theorem sqlserver_read_writes_zero_values:
  "Get sqlserver_example ''db_name'' = Some (VString ''db1'') \<and>
   Get sqlserver_example ''modify_type'' = Some (VString ''enable'') \<and>
   Get sqlserver_example ''change_retention_day'' = Some (VInt 7) \<and>
   DescribeSqlserverConfigDatabaseCTById online [] ''mssql-1'' =
     Inr (Some [Some \<lparr>dnd_Name = Some ''db2'', dnd_IsDbChainingOn = Some ''1'',
                        dnd_RetentionPeriod = Some ''5''\<rparr>]) \<and>
   fst (resourceTencentCloudSqlserverConfigDatabaseCTRead online sqlserver_example []) = Ok () \<and>
   Get (fst (snd (resourceTencentCloudSqlserverConfigDatabaseCTRead online sqlserver_example [])))
     ''db_name'' = Some (VString []) \<and>
   Get (fst (snd (resourceTencentCloudSqlserverConfigDatabaseCTRead online sqlserver_example [])))
     ''modify_type'' = Some (VString []) \<and>
   Get (fst (snd (resourceTencentCloudSqlserverConfigDatabaseCTRead online sqlserver_example [])))
     ''change_retention_day'' = Some (VInt 0)"
  by (simp add: resourceTencentCloudSqlserverConfigDatabaseCTRead_def Atoi_value_def
      example_defs eval_defs)

section \<open>The identifier after create\<close>

text \<open>
  Claim C7, as the code has it. A create that returns nil has made its remote call and
  has ended with the lookup of the read. For the clickhouse account permission and the
  sqlserver config-database-CT, the identifier it leaves is the one it has built, which is
  never empty, unless that lookup has answered that the resource is absent: then, and only
  then, it is empty. For the vpc flow-log-config it is likewise the value of \<open>flow_log_id\<close>
  unless the lookup has answered the empty list, and empty then. The create of the scrape
  job returns nil only when the lookup has found the job, with the identifier it has
  built, which is not empty.
\<close>

theorem create_identifier:
  "(resourceTencentCloudClickhouseAccountPermissionCreate meta d lg = (Ok (), d', lg') \<longrightarrow>
      ClickhouseAccountPermission_createId d \<noteq> [] \<and>
      (\<exists>request rest.
         lg' = lg @ Call_ModifyUserNewPrivilege request # rest @
                 [Call_DescribeCdwchAccountPermission
                    (strings_Split (ClickhouseAccountPermission_createId d) FILED_SP ! 0)
                    (strings_Split (ClickhouseAccountPermission_createId d) FILED_SP ! 1)
                    (strings_Split (ClickhouseAccountPermission_createId d) FILED_SP ! 2)] \<and>
         rd_Id d' =
           (if DescribeCdwchAccountPermission meta (lg @ Call_ModifyUserNewPrivilege request # rest)
                 (strings_Split (ClickhouseAccountPermission_createId d) FILED_SP ! 0)
                 (strings_Split (ClickhouseAccountPermission_createId d) FILED_SP ! 1)
                 (strings_Split (ClickhouseAccountPermission_createId d) FILED_SP ! 2) = Inr None
            then [] else ClickhouseAccountPermission_createId d))) \<and>
   (resourceTencentCloudSqlserverConfigDatabaseCTCreate meta d lg = (Ok (), d', lg') \<longrightarrow>
      SqlserverConfigDatabaseCT_createId d \<noteq> [] \<and>
      (\<exists>request rest.
         lg' = lg @ Call_ModifyDatabaseCT request # rest @
                 [Call_DescribeSqlserverConfigDatabaseCTById
                    (strings_Split (SqlserverConfigDatabaseCT_createId d) FILED_SP ! 0)] \<and>
         rd_Id d' =
           (if DescribeSqlserverConfigDatabaseCTById meta (lg @ Call_ModifyDatabaseCT request # rest)
                 (strings_Split (SqlserverConfigDatabaseCT_createId d) FILED_SP ! 0) = Inr None
            then [] else SqlserverConfigDatabaseCT_createId d))) \<and>
   (resourceTencentCloudVpcFlowLogConfigCreate meta d lg = (Ok (), d', lg') \<longrightarrow>
      (\<exists>rest.
         lg' = lg @ (if as_bool (Get d ''enable'')
                     then Call_EnableFlowLogs [as_string (Get d ''flow_log_id'')]
                     else Call_DisableFlowLogs [as_string (Get d ''flow_log_id'')]) # rest @
                 [Call_DescribeFlowLogs (as_string (Get d ''flow_log_id''))] \<and>
         rd_Id d' =
           (if DescribeFlowLogs meta
                 (lg @ (if as_bool (Get d ''enable'')
                        then Call_EnableFlowLogs [as_string (Get d ''flow_log_id'')]
                        else Call_DisableFlowLogs [as_string (Get d ''flow_log_id'')]) # rest)
                 (as_string (Get d ''flow_log_id'')) = Inr []
            then [] else as_string (Get d ''flow_log_id'')))) \<and>
   (resourceTencentCloudMonitorTmpScrapeJobCreate meta d lg = (Ok (), d', lg') \<longrightarrow>
      rd_Id d' \<noteq> [] \<and>
      (\<exists>request tmpScrapeJobId rest tmpScrapeJob.
         lg' = lg @ Call_CreatePrometheusScrapeJob request # rest @
                 [Call_DescribeMonitorTmpScrapeJob (MonitorTmpScrapeJob_createId tmpScrapeJobId d)] \<and>
         rd_Id d' = MonitorTmpScrapeJob_createId tmpScrapeJobId d \<and>
         DescribeMonitorTmpScrapeJob meta (lg @ Call_CreatePrometheusScrapeJob request # rest)
           (MonitorTmpScrapeJob_createId tmpScrapeJobId d) = Inr (Some tmpScrapeJob)))"
proof (intro conjI impI)
  show "ClickhouseAccountPermission_createId d \<noteq> []"
    by (simp add: ClickhouseAccountPermission_createId_def FILED_SP_def)
  show "SqlserverConfigDatabaseCT_createId d \<noteq> []"
    by (simp add: SqlserverConfigDatabaseCT_createId_def FILED_SP_def)
next
  assume "resourceTencentCloudClickhouseAccountPermissionCreate meta d lg = (Ok (), d', lg')"
  then show "\<exists>request rest.
         lg' = lg @ Call_ModifyUserNewPrivilege request # rest @
                 [Call_DescribeCdwchAccountPermission
                    (strings_Split (ClickhouseAccountPermission_createId d) FILED_SP ! 0)
                    (strings_Split (ClickhouseAccountPermission_createId d) FILED_SP ! 1)
                    (strings_Split (ClickhouseAccountPermission_createId d) FILED_SP ! 2)] \<and>
         rd_Id d' =
           (if DescribeCdwchAccountPermission meta (lg @ Call_ModifyUserNewPrivilege request # rest)
                 (strings_Split (ClickhouseAccountPermission_createId d) FILED_SP ! 0)
                 (strings_Split (ClickhouseAccountPermission_createId d) FILED_SP ! 1)
                 (strings_Split (ClickhouseAccountPermission_createId d) FILED_SP ! 2) = Inr None
            then [] else ClickhouseAccountPermission_createId d)"
    by (rule ClickhouseCreate_Ok_cases)
next
  assume "resourceTencentCloudSqlserverConfigDatabaseCTCreate meta d lg = (Ok (), d', lg')"
  then have "resourceTencentCloudSqlserverConfigDatabaseCTUpdate meta
               (SetId d (SqlserverConfigDatabaseCT_createId d)) lg = (Ok (), d', lg')"
    by (simp add: resourceTencentCloudSqlserverConfigDatabaseCTCreate_def)
  from SqlserverUpdate_Ok_cases [OF this, unfolded rd_Id_SetId]
  show "\<exists>request rest.
         lg' = lg @ Call_ModifyDatabaseCT request # rest @
                 [Call_DescribeSqlserverConfigDatabaseCTById
                    (strings_Split (SqlserverConfigDatabaseCT_createId d) FILED_SP ! 0)] \<and>
         rd_Id d' =
           (if DescribeSqlserverConfigDatabaseCTById meta (lg @ Call_ModifyDatabaseCT request # rest)
                 (strings_Split (SqlserverConfigDatabaseCT_createId d) FILED_SP ! 0) = Inr None
            then [] else SqlserverConfigDatabaseCT_createId d)" .
next
  assume "resourceTencentCloudVpcFlowLogConfigCreate meta d lg = (Ok (), d', lg')"
  then have "resourceTencentCloudVpcFlowLogConfigUpdate meta
               (SetId d (as_string (Get d ''flow_log_id''))) lg = (Ok (), d', lg')"
    by (simp add: resourceTencentCloudVpcFlowLogConfigCreate_def)
  from VpcUpdate_Ok_cases [OF this, unfolded rd_Id_SetId Get_SetId]
  show "\<exists>rest.
         lg' = lg @ (if as_bool (Get d ''enable'')
                     then Call_EnableFlowLogs [as_string (Get d ''flow_log_id'')]
                     else Call_DisableFlowLogs [as_string (Get d ''flow_log_id'')]) # rest @
                 [Call_DescribeFlowLogs (as_string (Get d ''flow_log_id''))] \<and>
         rd_Id d' =
           (if DescribeFlowLogs meta
                 (lg @ (if as_bool (Get d ''enable'')
                        then Call_EnableFlowLogs [as_string (Get d ''flow_log_id'')]
                        else Call_DisableFlowLogs [as_string (Get d ''flow_log_id'')]) # rest)
                 (as_string (Get d ''flow_log_id'')) = Inr []
            then [] else as_string (Get d ''flow_log_id''))" .
next
  assume h: "resourceTencentCloudMonitorTmpScrapeJobCreate meta d lg = (Ok (), d', lg')"
  from ScrapeCreate_Ok_cases [OF h]
  show e: "\<exists>request tmpScrapeJobId rest tmpScrapeJob.
         lg' = lg @ Call_CreatePrometheusScrapeJob request # rest @
                 [Call_DescribeMonitorTmpScrapeJob (MonitorTmpScrapeJob_createId tmpScrapeJobId d)] \<and>
         rd_Id d' = MonitorTmpScrapeJob_createId tmpScrapeJobId d \<and>
         DescribeMonitorTmpScrapeJob meta (lg @ Call_CreatePrometheusScrapeJob request # rest)
           (MonitorTmpScrapeJob_createId tmpScrapeJobId d) = Inr (Some tmpScrapeJob)" .
  then show "rd_Id d' \<noteq> []"
    by (auto simp: MonitorTmpScrapeJob_createId_def FILED_SP_def)
qed

text \<open>Claim C7, as the code has it, on the four example resources with the remote online,
  and on the clickhouse example with the resource gone.\<close>

theorem create_identifier_witness:
  "fst (resourceTencentCloudClickhouseAccountPermissionCreate online (clickhouse_example\<lparr>rd_Id := []\<rparr>) []) = Ok () \<and>
   rd_Id (fst (snd (resourceTencentCloudClickhouseAccountPermissionCreate online
                      (clickhouse_example\<lparr>rd_Id := []\<rparr>) []))) = ''cdwch-1#default_cluster#user1'' \<and>
   fst (resourceTencentCloudClickhouseAccountPermissionCreate vanished (clickhouse_example\<lparr>rd_Id := []\<rparr>) []) = Ok () \<and>
   rd_Id (fst (snd (resourceTencentCloudClickhouseAccountPermissionCreate vanished
                      (clickhouse_example\<lparr>rd_Id := []\<rparr>) []))) = [] \<and>
   fst (resourceTencentCloudSqlserverConfigDatabaseCTCreate online (sqlserver_example\<lparr>rd_Id := []\<rparr>) []) = Ok () \<and>
   rd_Id (fst (snd (resourceTencentCloudSqlserverConfigDatabaseCTCreate online
                      (sqlserver_example\<lparr>rd_Id := []\<rparr>) []))) = ''mssql-1#db1'' \<and>
   fst (resourceTencentCloudVpcFlowLogConfigCreate online (vpc_example\<lparr>rd_Id := []\<rparr>) []) = Ok () \<and>
   rd_Id (fst (snd (resourceTencentCloudVpcFlowLogConfigCreate online
                      (vpc_example\<lparr>rd_Id := []\<rparr>) []))) = ''fl-1'' \<and>
   fst (resourceTencentCloudMonitorTmpScrapeJobCreate online (scrape_example\<lparr>rd_Id := []\<rparr>) []) = Ok () \<and>
   rd_Id (fst (snd (resourceTencentCloudMonitorTmpScrapeJobCreate online
                      (scrape_example\<lparr>rd_Id := []\<rparr>) []))) \<noteq> []"
proof -
  let ?c = "resourceTencentCloudClickhouseAccountPermissionCreate online (clickhouse_example\<lparr>rd_Id := []\<rparr>) []"
  let ?g = "resourceTencentCloudClickhouseAccountPermissionCreate vanished (clickhouse_example\<lparr>rd_Id := []\<rparr>) []"
  let ?s = "resourceTencentCloudSqlserverConfigDatabaseCTCreate online (sqlserver_example\<lparr>rd_Id := []\<rparr>) []"
  let ?j = "resourceTencentCloudMonitorTmpScrapeJobCreate online (scrape_example\<lparr>rd_Id := []\<rparr>) []"
  let ?v = "resourceTencentCloudVpcFlowLogConfigCreate online (vpc_example\<lparr>rd_Id := []\<rparr>) []"
  have c: "fst ?c = Ok ()" and g: "fst ?g = Ok ()"
    by (simp_all add: resourceTencentCloudClickhouseAccountPermissionCreate_def
        resourceTencentCloudClickhouseAccountPermissionRead_def
        ClickhouseAccountPermission_createId_def ModifyUserNewPrivilege_attempt_def
        Retry_Done example_defs eval_defs)
  have s: "fst ?s = Ok ()"
    by (simp add: resourceTencentCloudSqlserverConfigDatabaseCTCreate_def
        resourceTencentCloudSqlserverConfigDatabaseCTUpdate_def
        resourceTencentCloudSqlserverConfigDatabaseCTRead_def
        SqlserverConfigDatabaseCT_createId_def ModifyDatabaseCT_attempt_def
        pollFlowStatus_def DescribeFlowStatus_attempt_def flowStatus_result_def
        Retry_Done example_defs eval_defs)
  have j: "fst ?j = Ok ()"
    by (simp add: resourceTencentCloudMonitorTmpScrapeJobCreate_def
        resourceTencentCloudMonitorTmpScrapeJobRead_def
        MonitorTmpScrapeJob_createId_def CreatePrometheusScrapeJob_attempt_def
        Retry_Done example_defs eval_defs)
  have v: "fst ?v = Ok ()"
    by (simp add: resourceTencentCloudVpcFlowLogConfigCreate_def
        resourceTencentCloudVpcFlowLogConfigUpdate_def
        resourceTencentCloudVpcFlowLogConfigRead_def
        EnableFlowLogs_attempt_def Retry_Done example_defs eval_defs)
  have ids: "ClickhouseAccountPermission_createId (clickhouse_example\<lparr>rd_Id := []\<rparr>) =
               ''cdwch-1#default_cluster#user1''"
    "SqlserverConfigDatabaseCT_createId (sqlserver_example\<lparr>rd_Id := []\<rparr>) = ''mssql-1#db1''"
    "as_string (Get (vpc_example\<lparr>rd_Id := []\<rparr>) ''flow_log_id'') = ''fl-1''"
    by (simp_all add: ClickhouseAccountPermission_createId_def
        SqlserverConfigDatabaseCT_createId_def example_defs eval_defs)
  have present: "DescribeCdwchAccountPermission online l a b' c' \<noteq> Inr None"
    "DescribeSqlserverConfigDatabaseCTById online l a \<noteq> Inr None"
    "DescribeFlowLogs online l a \<noteq> Inr []"
    and gone: "DescribeCdwchAccountPermission vanished l a b' c' = Inr None" for l a b' c'
    by (simp_all add: online_def vanished_def)
  have pc: "?c = (Ok (), fst (snd ?c), snd (snd ?c))"
    using c by (metis prod.collapse)
  have pg: "?g = (Ok (), fst (snd ?g), snd (snd ?g))"
    using g by (metis prod.collapse)
  have ps: "?s = (Ok (), fst (snd ?s), snd (snd ?s))"
    using s by (metis prod.collapse)
  have pj: "?j = (Ok (), fst (snd ?j), snd (snd ?j))"
    using j by (metis prod.collapse)
  have pv: "?v = (Ok (), fst (snd ?v), snd (snd ?v))"
    using v by (metis prod.collapse)
  have rc: "rd_Id (fst (snd ?c)) = ''cdwch-1#default_cluster#user1''"
    using create_identifier [where meta = online and d = "clickhouse_example\<lparr>rd_Id := []\<rparr>"
        and lg = "[]" and d' = "fst (snd ?c)" and lg' = "snd (snd ?c)",
        THEN conjunct1, THEN mp, OF pc, THEN conjunct2]
    by (auto simp: present ids)
  have rg: "rd_Id (fst (snd ?g)) = []"
    using create_identifier [where meta = vanished and d = "clickhouse_example\<lparr>rd_Id := []\<rparr>"
        and lg = "[]" and d' = "fst (snd ?g)" and lg' = "snd (snd ?g)",
        THEN conjunct1, THEN mp, OF pg, THEN conjunct2]
    by (auto simp: gone)
  have rs: "rd_Id (fst (snd ?s)) = ''mssql-1#db1''"
    using create_identifier [where meta = online and d = "sqlserver_example\<lparr>rd_Id := []\<rparr>"
        and lg = "[]" and d' = "fst (snd ?s)" and lg' = "snd (snd ?s)",
        THEN conjunct2, THEN conjunct1, THEN mp, OF ps, THEN conjunct2]
    by (auto simp: present ids)
  have rv: "rd_Id (fst (snd ?v)) = ''fl-1''"
    using create_identifier [where meta = online and d = "vpc_example\<lparr>rd_Id := []\<rparr>"
        and lg = "[]" and d' = "fst (snd ?v)" and lg' = "snd (snd ?v)",
        THEN conjunct2, THEN conjunct2, THEN conjunct1, THEN mp, OF pv]
    by (auto simp: present ids)
  have rj: "rd_Id (fst (snd ?j)) \<noteq> []"
    using create_identifier [where meta = online and d = "scrape_example\<lparr>rd_Id := []\<rparr>"
        and lg = "[]" and d' = "fst (snd ?j)" and lg' = "snd (snd ?j)",
        THEN conjunct2, THEN conjunct2, THEN conjunct2, THEN mp, OF pj, THEN conjunct1] .
  show ?thesis
    using c g s j v rc rg rs rv rj by blast
qed

text \<open>Claim C7 as stated fails when the resource is gone by the time create reads it
  back: the create of the clickhouse account permission makes its remote call, the lookup
  answers nil, and create returns nil with an empty identifier.\<close>

theorem create_ends_with_empty_identifier:
  "fst (resourceTencentCloudClickhouseAccountPermissionCreate vanished
          (clickhouse_example\<lparr>rd_Id := []\<rparr>) []) = Ok () \<and>
   rd_Id (fst (snd (resourceTencentCloudClickhouseAccountPermissionCreate vanished
          (clickhouse_example\<lparr>rd_Id := []\<rparr>) []))) = [] \<and>
   snd (snd (resourceTencentCloudClickhouseAccountPermissionCreate vanished
          (clickhouse_example\<lparr>rd_Id := []\<rparr>) [])) =
     [Call_ModifyUserNewPrivilege
        \<lparr>mup_InstanceId = Some ''cdwch-1'', mup_Cluster = Some ''default_cluster'',
         mup_UserName = Some ''user1'', mup_AllDatabase = Some True,
         mup_GlobalPrivileges = [], mup_DatabasePrivilegeList = []\<rparr>,
      Call_DescribeCdwchAccountPermission ''cdwch-1'' ''default_cluster'' ''user1'']"
  by (simp add: resourceTencentCloudClickhouseAccountPermissionCreate_def
      resourceTencentCloudClickhouseAccountPermissionRead_def
      ClickhouseAccountPermission_createId_def
      ModifyUserNewPrivilege_attempt_def Retry_Done example_defs eval_defs)

end
